theory Spec2Isabelle
  imports Complex_Main "HOL-Library.AList"
begin

section \<open>JavaScript values\<close>

text \<open>
  The library is written against \<open>any\<close>-typed values: what the persistence model
  returns (clients, users, codes, tokens) is inspected with truthiness tests, property
  reads, \<open>instanceof\<close> and strict equality. These values are embedded as one datatype.
  Numbers are integers and a \<open>Date\<close> is its time value in milliseconds (fractional
  numbers, \<open>NaN\<close> and invalid dates are not represented). An object is its list of own
  properties in insertion order.
\<close>

datatype jsval =
    JUndefined
  | JNull
  | JBool bool
  | JNum int
  | JStr string
  | JDate int
  | JArr "jsval list"
  | JObj "(string \<times> jsval) list"

text \<open>ToBoolean.\<close>

fun truthy :: "jsval \<Rightarrow> bool" where
  "truthy JUndefined = False"
| "truthy JNull = False"
| "truthy (JBool b) = b"
| "truthy (JNum n) = (n \<noteq> 0)"
| "truthy (JStr s) = (s \<noteq> [])"
| "truthy (JDate t) = True"
| "truthy (JArr xs) = True"
| "truthy (JObj kvs) = True"

text \<open>
  \<open>o.k\<close>: an own property of an object, \<open>undefined\<close> when there is none. Every read
  in the source that is modelled with \<open>getprop\<close> comes after a truthiness test of \<open>o\<close>,
  so the \<open>TypeError\<close> of reading from \<open>undefined\<close> or \<open>null\<close> cannot occur there;
  the reads that are not guarded are written out where they occur.
\<close>

fun getprop :: "jsval \<Rightarrow> string \<Rightarrow> jsval" where
  "getprop (JObj kvs) k = (case map_of kvs k of None \<Rightarrow> JUndefined | Some v \<Rightarrow> v)"
| "getprop v k = JUndefined"

text \<open>\<open>a || b\<close>\<close>

definition js_or :: "jsval \<Rightarrow> jsval \<Rightarrow> jsval" where
  "js_or a b = (if truthy a then a else b)"

text \<open>
  \<open>a === b\<close>. Primitives are compared by value. Objects, arrays and dates are compared
  by reference in JavaScript; the embedding has no references, and two such values are
  taken to be distinct objects.
\<close>

fun strict_eq :: "jsval \<Rightarrow> jsval \<Rightarrow> bool" where
  "strict_eq JUndefined JUndefined = True"
| "strict_eq JNull JNull = True"
| "strict_eq (JBool a) (JBool b) = (a = b)"
| "strict_eq (JNum a) (JNum b) = (a = b)"
| "strict_eq (JStr a) (JStr b) = (a = b)"
| "strict_eq a b = False"

text \<open>\<open>v instanceof Date\<close>, \<open>v instanceof Array\<close>\<close>

fun instanceof_Date :: "jsval \<Rightarrow> bool" where
  "instanceof_Date (JDate t) = True"
| "instanceof_Date v = False"

fun instanceof_Array :: "jsval \<Rightarrow> bool" where
  "instanceof_Array (JArr xs) = True"
| "instanceof_Array v = False"

section \<open>Error taxonomy\<close>

text \<open>
  Modelled from the spec: \<open>exceptions/OAuthException.ts\<close> is not among the sources. An
  OAuth exception carries the machine name, the message and the HTTP status code that
  the subclasses pass to \<open>super(message, { code, name, ...properties })\<close>.
\<close>

record OAuthException =
  name :: string
  message :: string
  code :: nat

text \<open>
  What a \<open>throw\<close> or a rejected promise carries: an exception of the taxonomy, or any
  other throwable (an \<open>Error\<close> of the model or of the runtime), kept as its message.
\<close>

datatype thrown = OAuth OAuthException | Foreign string

definition InvalidArgumentException :: "string \<Rightarrow> OAuthException" where
  "InvalidArgumentException msg =
     \<lparr>name = ''invalid_argument'', message = msg, code = 500\<rparr>"

definition AccessDeniedException :: "string \<Rightarrow> OAuthException" where
  "AccessDeniedException msg =
     \<lparr>name = ''access_denied'', message = msg, code = 400\<rparr>"

definition InvalidScopeException :: "string \<Rightarrow> OAuthException" where
  "InvalidScopeException msg =
     \<lparr>name = ''invalid_scope'', message = msg, code = 400\<rparr>"

definition ServerException :: "string \<Rightarrow> OAuthException" where
  "ServerException msg =
     \<lparr>name = ''server_error'', message = msg, code = 503\<rparr>"

definition UnauthorizedClientException :: "string \<Rightarrow> OAuthException" where
  "UnauthorizedClientException msg =
     \<lparr>name = ''unauthorized_client'', message = msg, code = 400\<rparr>"

definition UnsupportedGrantTypeException :: "string \<Rightarrow> OAuthException" where
  "UnsupportedGrantTypeException msg =
     \<lparr>name = ''unsupported_grant_type'', message = msg, code = 400\<rparr>"

text \<open>
  Modelled from the spec: \<open>InvalidGrantException.ts\<close>, \<open>InvalidRequestException.ts\<close>,
  \<open>InvalidClientException.ts\<close> and \<open>UnsupportedResponseTypeException.ts\<close> are not among
  the sources. Their names and codes are those of the spec's error table, in the shape of
  the sibling classes above.
\<close>

definition InvalidGrantException :: "string \<Rightarrow> OAuthException" where
  "InvalidGrantException msg =
     \<lparr>name = ''invalid_grant'', message = msg, code = 400\<rparr>"

definition InvalidRequestException :: "string \<Rightarrow> OAuthException" where
  "InvalidRequestException msg =
     \<lparr>name = ''invalid_request'', message = msg, code = 400\<rparr>"

definition InvalidClientException :: "string \<Rightarrow> OAuthException" where
  "InvalidClientException msg =
     \<lparr>name = ''invalid_client'', message = msg, code = 400\<rparr>"

definition UnsupportedResponseTypeException :: "string \<Rightarrow> OAuthException" where
  "UnsupportedResponseTypeException msg =
     \<lparr>name = ''unsupported_response_type'', message = msg, code = 400\<rparr>"

text \<open>
  \<open>e instanceof OAuthException\<close>, and the handlers' \<open>if (!(e instanceof OAuthException))
  e = new ServerException(e)\<close>. Modelled from the spec: the base constructor, which
  takes the message of the error it is given, is not among the sources.
\<close>

fun instanceof_OAuthException :: "thrown \<Rightarrow> bool" where
  "instanceof_OAuthException (OAuth e) = True"
| "instanceof_OAuthException (Foreign m) = False"

fun wrap_ServerException :: "thrown \<Rightarrow> OAuthException" where
  "wrap_ServerException (OAuth e) = e"
| "wrap_ServerException (Foreign m) = ServerException m"

section \<open>Requests, responses and the world\<close>

text \<open>
  Modelled from the spec: \<open>Request.ts\<close> and \<open>Response.ts\<close> are not among the sources.
  A request exposes method, headers, query and body; header names are the lower-case
  names that \<open>request.get\<close> looks up; the fields of a decoded form body and of a
  query string are strings. A response exposes status, body and headers; \<open>redirect\<close>
  emits an HTTP 302 with the \<open>Location\<close> header.
\<close>

record Request =
  request_method :: string
  headers :: "(string \<times> string) list"
  query :: "(string \<times> string) list"
  body :: "(string \<times> string) list"

record Response =
  status :: nat
  rbody :: jsval
  rheaders :: "(string \<times> string) list"

text \<open>\<open>request.body.k\<close>, \<open>request.query.k\<close>\<close>

definition fld :: "(string \<times> string) list \<Rightarrow> string \<Rightarrow> jsval" where
  "fld kvs k = (case map_of kvs k of None \<Rightarrow> JUndefined | Some v \<Rightarrow> JStr v)"

definition request_get :: "Request \<Rightarrow> string \<Rightarrow> string option" where
  "request_get r f = map_of (headers r) f"

definition response_set :: "string \<Rightarrow> string \<Rightarrow> Response \<Rightarrow> Response" where
  "response_set f v r = r\<lparr>rheaders := AList.update f v (rheaders r)\<rparr>"

definition response_get :: "Response \<Rightarrow> string \<Rightarrow> string option" where
  "response_get r f = map_of (rheaders r) f"

definition response_redirect :: "string \<Rightarrow> Response \<Rightarrow> Response" where
  "response_redirect url r = (response_set ''Location'' url r)\<lparr>status := 302\<rparr>"

text \<open>
  The calls made to the persistence model, with their arguments where a property of
  the call log speaks of them.
\<close>

datatype call =
    GetClient jsval jsval
  | GetAuthorizationCode jsval
  | RevokeAuthorizationCode jsval
  | GetRefreshToken jsval
  | RevokeToken jsval
  | GetUser jsval jsval
  | GetUserFromClient jsval
  | SaveToken jsval jsval jsval
  | SaveAuthorizationCode jsval jsval jsval
  | ValidateScope jsval jsval jsval
  | GenerateAccessToken
  | GenerateRefreshToken
  | GenerateAuthorizationCode

text \<open>
  One request runs in a world: the state of everything outside the library (the
  model's store, the clock, the random source), the log of the model calls made so far,
  each with its outcome (the value returned or what was thrown), and the response object
  that the handlers mutate.
\<close>

type_synonym event = "call \<times> (thrown + jsval)"

record 'e world =
  env :: 'e
  calls :: "event list"
  response :: Response

type_synonym ('e, 'a) io = "'e world \<Rightarrow> (thrown + 'a) \<times> 'e world"

definition ret :: "'a \<Rightarrow> ('e, 'a) io" where
  "ret x = (\<lambda>w. (Inr x, w))"

definition throw :: "OAuthException \<Rightarrow> ('e, 'a) io" where
  "throw e = (\<lambda>w. (Inl (OAuth e), w))"

definition raise :: "thrown \<Rightarrow> ('e, 'a) io" where
  "raise t = (\<lambda>w. (Inl t, w))"

definition bind :: "('e, 'a) io \<Rightarrow> ('a \<Rightarrow> ('e, 'b) io) \<Rightarrow> ('e, 'b) io" where
  "bind m f = (\<lambda>w. case m w of (Inl t, w') \<Rightarrow> (Inl t, w') | (Inr x, w') \<Rightarrow> f x w')"

text \<open>A promise that has settled: its outcome as a value.\<close>

definition settled :: "('e, 'a) io \<Rightarrow> ('e, thrown + 'a) io" where
  "settled m = (\<lambda>w. case m w of (r, w') \<Rightarrow> (Inr r, w'))"

definition await :: "thrown + 'a \<Rightarrow> ('e, 'a) io" where
  "await r = (case r of Inl t \<Rightarrow> raise t | Inr x \<Rightarrow> ret x)"

text \<open>\<open>try { m } catch (e) { h e }\<close>\<close>

definition catch :: "('e, 'a) io \<Rightarrow> (thrown \<Rightarrow> ('e, 'a) io) \<Rightarrow> ('e, 'a) io" where
  "catch m h = (\<lambda>w. case m w of (Inl t, w') \<Rightarrow> h t w' | (Inr x, w') \<Rightarrow> (Inr x, w'))"

definition modify_response :: "(Response \<Rightarrow> Response) \<Rightarrow> ('e, unit) io" where
  "modify_response f = (\<lambda>w. (Inr (), w\<lparr>response := f (response w)\<rparr>))"

section \<open>What the library is given\<close>

text \<open>
  The persistence model is duck-typed: a method may be missing, may return any value
  and may throw. Each method acts on the outside state \<open>'e\<close>.
\<close>

type_synonym 'e model_fn = "'e \<Rightarrow> (thrown + jsval) \<times> 'e"

record 'e Model =
  m_getClient :: "(jsval \<Rightarrow> jsval \<Rightarrow> 'e model_fn) option"
  m_getAuthorizationCode :: "(jsval \<Rightarrow> 'e model_fn) option"
  m_revokeAuthorizationCode :: "(jsval \<Rightarrow> 'e model_fn) option"
  m_getRefreshToken :: "(jsval \<Rightarrow> 'e model_fn) option"
  m_revokeToken :: "(jsval \<Rightarrow> 'e model_fn) option"
  m_getUser :: "(jsval \<Rightarrow> jsval \<Rightarrow> 'e model_fn) option"
  m_getUserFromClient :: "(jsval \<Rightarrow> 'e model_fn) option"
  m_saveToken :: "(jsval \<Rightarrow> jsval \<Rightarrow> jsval \<Rightarrow> 'e model_fn) option"
  m_saveAuthorizationCode :: "(jsval \<Rightarrow> jsval \<Rightarrow> jsval \<Rightarrow> 'e model_fn) option"
  m_validateScope :: "(jsval \<Rightarrow> jsval \<Rightarrow> jsval \<Rightarrow> 'e model_fn) option"
  m_generateAccessToken :: "(jsval \<Rightarrow> jsval \<Rightarrow> jsval \<Rightarrow> 'e model_fn) option"
  m_generateRefreshToken :: "(jsval \<Rightarrow> jsval \<Rightarrow> jsval \<Rightarrow> 'e model_fn) option"
  m_generateAuthorizationCode :: "(jsval \<Rightarrow> jsval \<Rightarrow> jsval \<Rightarrow> 'e model_fn) option"

text \<open>
  The options a grant is constructed with, which are also the fields of the grant
  object. Lifetimes are numbers of seconds, as the class declares them;
  \<open>alwaysIssueNewRefreshToken\<close> is kept as the value it was given.
\<close>

record 'e GrantType =
  accessTokenLifetime :: int
  model :: "'e Model"
  refreshTokenLifetime :: int
  alwaysIssueNewRefreshToken :: jsval

text \<open>
  A grant class: constructing the grant with its options and handling the request with
  it, \<open>new Type(options).handle(request, client)\<close>. Extension grants are any such
  classes.
\<close>

type_synonym 'e grant_class = "'e GrantType \<Rightarrow> Request \<Rightarrow> jsval \<Rightarrow> ('e, jsval) io"

text \<open>
  The platform: code the handlers call that is not among the sources. \<open>now\<close> is
  \<open>new Date()\<close> (its time value); \<open>GenerateRandomToken\<close> is \<open>utils/TokenUtil\<close>;
  \<open>is_vschar\<close> ... \<open>is_uchar\<close> are the predicates of \<open>validators/IsValidator\<close>, applied
  to whatever value the source passes them; \<open>request_is\<close> is \<open>Request.is\<close>;
  \<open>basic_auth\<close> is the \<open>basic-auth\<close> package applied to the value of the
  \<open>Authorization\<close> header; \<open>url_parse\<close> and \<open>url_format\<close> are \<open>parse(s, true)\<close>
  and \<open>format\<close> of the \<open>url\<close> package. A parsed URL is kept as the string it was
  parsed from, its query parameters and its \<open>search\<close> component, which are the parts
  the handlers assign to. \<open>has_grantTypes\<close> and \<open>has_responseTypes\<close> are \<open>has\<close> of the
  \<open>lodash\<close> package, applied to the registry of grant classes and to the registry of
  response types: \<open>has(object, path)\<close> tells whether \<open>path\<close> leads to an own property
  of \<open>object\<close>, and a path that is not a key of the object is followed through it
  part by part (\<open>a.b\<close> is the own property \<open>b\<close> of the own property \<open>a\<close>).
\<close>

record Url =
  u_source :: string
  u_query :: "(string \<times> jsval) list"
  u_search :: "string option"

record 'e platform =
  now :: "'e \<Rightarrow> int \<times> 'e"
  GenerateRandomToken :: "'e \<Rightarrow> string \<times> 'e"
  is_vschar :: "jsval \<Rightarrow> bool"
  is_nchar :: "jsval \<Rightarrow> bool"
  is_uri :: "jsval \<Rightarrow> bool"
  is_nqschar :: "jsval \<Rightarrow> bool"
  is_uchar :: "jsval \<Rightarrow> bool"
  request_is :: "Request \<Rightarrow> string \<Rightarrow> bool"
  basic_auth :: "string \<Rightarrow> (string \<times> string) option"
  url_parse :: "string \<Rightarrow> Url"
  url_format :: "Url \<Rightarrow> string"
  has_grantTypes :: "(string \<times> 'e grant_class) list \<Rightarrow> jsval \<Rightarrow> bool"
  has_responseTypes :: "jsval \<Rightarrow> bool"

text \<open>
  \<open>await this.model.f(args)\<close>: calling a missing method is a \<open>TypeError\<close>; otherwise
  the call is logged and acts on the outside state.
\<close>

definition invoke :: "call \<Rightarrow> 'e model_fn option \<Rightarrow> ('e, jsval) io" where
  "invoke c f = (\<lambda>w. case f of
      None \<Rightarrow> (Inl (Foreign ''TypeError: not a function''), w)
    | Some g \<Rightarrow> (case g (env w) of
        (r, e') \<Rightarrow> (r, w\<lparr>env := e', calls := calls w @ [(c, r)]\<rparr>)))"

definition new_Date :: "'e platform \<Rightarrow> ('e, int) io" where
  "new_Date pf = (\<lambda>w. case now pf (env w) of (t, e') \<Rightarrow> (Inr t, w\<lparr>env := e'\<rparr>))"

definition random_token :: "'e platform \<Rightarrow> ('e, jsval) io" where
  "random_token pf =
     (\<lambda>w. case GenerateRandomToken pf (env w) of (s, e') \<Rightarrow> (Inr (JStr s), w\<lparr>env := e'\<rparr>))"

section \<open>Grant types\<close>

subsection \<open>AbstractGrantType\<close>

definition AbstractGrantType_new :: "'e GrantType \<Rightarrow> ('e, 'e GrantType) io" where
  "AbstractGrantType_new options =
     (if accessTokenLifetime options = 0
      then throw (InvalidArgumentException ''Missing parameter: `accessTokenLifetime`'')
      else ret options)"

definition generateAccessToken ::
  "'e platform \<Rightarrow> 'e GrantType \<Rightarrow> jsval \<Rightarrow> jsval \<Rightarrow> jsval \<Rightarrow> ('e, jsval) io" where
  "generateAccessToken pf g client user scope =
     (case m_generateAccessToken (model g) of
        Some f \<Rightarrow>
          bind (invoke GenerateAccessToken (Some (f client user scope)))
            (\<lambda>token. if truthy token then ret token else random_token pf)
      | None \<Rightarrow> random_token pf)"

definition generateRefreshToken ::
  "'e platform \<Rightarrow> 'e GrantType \<Rightarrow> jsval \<Rightarrow> jsval \<Rightarrow> jsval \<Rightarrow> ('e, jsval) io" where
  "generateRefreshToken pf g client user scope =
     (case m_generateRefreshToken (model g) of
        Some f \<Rightarrow>
          bind (invoke GenerateRefreshToken (Some (f client user scope)))
            (\<lambda>token. if truthy token then ret token else random_token pf)
      | None \<Rightarrow> random_token pf)"

text \<open>
  \<open>expires.setSeconds(expires.getSeconds() + lifetime)\<close> on a fresh date: the time
  value moves by \<open>1000 * lifetime\<close> milliseconds (in a time zone of fixed offset).
\<close>

definition getAccessTokenExpiresAt :: "'e platform \<Rightarrow> 'e GrantType \<Rightarrow> ('e, jsval) io" where
  "getAccessTokenExpiresAt pf g =
     bind (new_Date pf) (\<lambda>t. ret (JDate (t + 1000 * accessTokenLifetime g)))"

definition getRefreshTokenExpiresAt :: "'e platform \<Rightarrow> 'e GrantType \<Rightarrow> ('e, jsval) io" where
  "getRefreshTokenExpiresAt pf g =
     bind (new_Date pf) (\<lambda>t. ret (JDate (t + 1000 * refreshTokenLifetime g)))"

definition getScope :: "'e platform \<Rightarrow> Request \<Rightarrow> ('e, jsval) io" where
  "getScope pf request =
     (if \<not> is_nqschar pf (fld (body request) ''scope'')
      then throw (InvalidArgumentException ''Invalid parameter: `scope`'')
      else ret (fld (body request) ''scope''))"

definition validateScope :: "'e GrantType \<Rightarrow> jsval \<Rightarrow> jsval \<Rightarrow> jsval \<Rightarrow> ('e, jsval) io" where
  "validateScope g user client scope =
     (case m_validateScope (model g) of
        Some f \<Rightarrow>
          bind (invoke (ValidateScope user client scope) (Some (f user client scope)))
            (\<lambda>sc. if \<not> truthy sc
                   then throw (InvalidScopeException ''Invalid scope: Requested scope is invalid'')
                   else ret sc)
      | None \<Rightarrow> ret scope)"

subsection \<open>AuthorizationCodeGrantType\<close>

definition AuthorizationCodeGrantType_new :: "'e GrantType \<Rightarrow> ('e, 'e GrantType) io" where
  "AuthorizationCodeGrantType_new options =
     bind (AbstractGrantType_new options) (\<lambda>g.
       if m_getAuthorizationCode (model options) = None
       then throw (InvalidArgumentException
              ''Invalid argument: model does not implement `getAuthorizationCode()`'')
       else if m_revokeAuthorizationCode (model options) = None
       then throw (InvalidArgumentException
              ''Invalid argument: model does not implement `revokeAuthorizationCode()`'')
       else if m_saveToken (model options) = None
       then throw (InvalidArgumentException
              ''Invalid argument: model does not implement `saveToken()`'')
       else ret g)"

definition AuthorizationCodeGrantType_getAuthorizationCode ::
  "'e platform \<Rightarrow> 'e GrantType \<Rightarrow> Request \<Rightarrow> jsval \<Rightarrow> ('e, jsval) io" where
  "AuthorizationCodeGrantType_getAuthorizationCode pf g request client =
     (if \<not> truthy (fld (body request) ''code'')
      then throw (InvalidRequestException ''Missing parameter: `code`'')
      else if \<not> is_vschar pf (fld (body request) ''code'')
      then throw (InvalidRequestException ''Invalid parameter: `code`'')
      else
        bind (invoke (GetAuthorizationCode (fld (body request) ''code''))
               (map_option (\<lambda>f. f (fld (body request) ''code''))
                  (m_getAuthorizationCode (model g))))
          (\<lambda>acode.
            if \<not> truthy acode
            then throw (InvalidGrantException ''Invalid grant: authorization code is invalid'')
            else if \<not> truthy (getprop acode ''client'')
            then throw (ServerException
                   ''Server error: `getAuthorizationCode()` did not return a `client` object'')
            else if \<not> truthy (getprop acode ''user'')
            then throw (ServerException
                   ''Server error: `getAuthorizationCode()` did not return a `user` object'')
            else if \<not> strict_eq (getprop (getprop acode ''client'') ''id'') (getprop client ''id'')
            then throw (InvalidGrantException ''Invalid grant: authorization code is invalid'')
            else if \<not> instanceof_Date (getprop acode ''expiresAt'')
            then throw (ServerException ''Server error: `expiresAt` must be a Date instance'')
            else
              bind (new_Date pf) (\<lambda>t.
                if (case getprop acode ''expiresAt'' of JDate x \<Rightarrow> x < t | _ \<Rightarrow> False)
                then throw (InvalidGrantException
                       ''Invalid grant: authorization code has expired'')
                else if truthy (getprop acode ''redirectUri'')
                        \<and> \<not> is_uri pf (getprop acode ''redirectUri'')
                then throw (InvalidGrantException
                       ''Invalid grant: `redirect_uri` is not a valid URI'')
                else ret acode)))"

definition AuthorizationCodeGrantType_validateRedirectUri ::
  "'e platform \<Rightarrow> Request \<Rightarrow> jsval \<Rightarrow> ('e, unit) io" where
  "AuthorizationCodeGrantType_validateRedirectUri pf request acode =
     (if \<not> truthy (getprop acode ''redirectUri'') then ret ()
      else
        let redirectUri = js_or (fld (body request) ''redirect_uri'')
                                (fld (query request) ''redirect_uri'')
        in if \<not> is_uri pf redirectUri
           then throw (InvalidRequestException
                  ''Invalid request: `redirect_uri` is not a valid URI'')
           else if \<not> strict_eq redirectUri (getprop acode ''redirectUri'')
           then throw (InvalidRequestException ''Invalid request: `redirect_uri` is invalid'')
           else ret ())"

definition AuthorizationCodeGrantType_revokeAuthorizationCode ::
  "'e GrantType \<Rightarrow> jsval \<Rightarrow> ('e, jsval) io" where
  "AuthorizationCodeGrantType_revokeAuthorizationCode g acode =
     bind (invoke (RevokeAuthorizationCode acode)
            (map_option (\<lambda>f. f acode) (m_revokeAuthorizationCode (model g))))
       (\<lambda>status.
         if \<not> truthy status
         then throw (InvalidGrantException ''Invalid grant: authorization code is invalid'')
         else ret acode)"

text \<open>
  \<open>Promise.all(fns)\<close>: the five computations are started in the order of the array, so
  the model is called in that order and every one of them is started whether or not an
  earlier one fails; the fan-out is linearised in that order. The result is the first
  failure in array order, if there is one.
\<close>

definition AuthorizationCodeGrantType_saveToken ::
  "'e platform \<Rightarrow> 'e GrantType \<Rightarrow> jsval \<Rightarrow> jsval \<Rightarrow> jsval \<Rightarrow> jsval \<Rightarrow> ('e, jsval) io" where
  "AuthorizationCodeGrantType_saveToken pf g user client authorizationCode scope =
     bind (settled (validateScope g user client scope)) (\<lambda>p1.
     bind (settled (generateAccessToken pf g client user scope)) (\<lambda>p2.
     bind (settled (generateRefreshToken pf g client user scope)) (\<lambda>p3.
     bind (settled (getAccessTokenExpiresAt pf g)) (\<lambda>p4.
     bind (settled (getRefreshTokenExpiresAt pf g)) (\<lambda>p5.
     bind (await p1) (\<lambda>accessScope.
     bind (await p2) (\<lambda>accessToken.
     bind (await p3) (\<lambda>refreshToken.
     bind (await p4) (\<lambda>accessTokenExpiresAt.
     bind (await p5) (\<lambda>refreshTokenExpiresAt.
       let token = JObj
             [(''accessToken'', accessToken),
              (''authorizationCode'', authorizationCode),
              (''accessTokenExpiresAt'', accessTokenExpiresAt),
              (''refreshToken'', refreshToken),
              (''refreshTokenExpiresAt'', refreshTokenExpiresAt),
              (''scope'', accessScope)]
       in invoke (SaveToken token client user)
            (map_option (\<lambda>f. f token client user) (m_saveToken (model g)))))))))))))"

text \<open>
  \<open>handle\<close> first tests \<open>!request\<close>; a request is an object, so that branch is
  never taken and only the test of \<open>client\<close> remains.
\<close>

definition AuthorizationCodeGrantType_handle ::
  "'e platform \<Rightarrow> 'e GrantType \<Rightarrow> Request \<Rightarrow> jsval \<Rightarrow> ('e, jsval) io" where
  "AuthorizationCodeGrantType_handle pf g request client =
     (if \<not> truthy client
      then throw (InvalidArgumentException ''Missing parameter: `client`'')
      else
        bind (AuthorizationCodeGrantType_getAuthorizationCode pf g request client) (\<lambda>acode.
        bind (AuthorizationCodeGrantType_validateRedirectUri pf request acode) (\<lambda>_.
        bind (AuthorizationCodeGrantType_revokeAuthorizationCode g acode) (\<lambda>_.
          AuthorizationCodeGrantType_saveToken pf g
            (getprop acode ''user'') client
            (getprop acode ''authorizationCode'') (getprop acode ''scope'')))))"

subsection \<open>RefreshTokenGrantType\<close>

definition RefreshTokenGrantType_new :: "'e GrantType \<Rightarrow> ('e, 'e GrantType) io" where
  "RefreshTokenGrantType_new options =
     bind (AbstractGrantType_new options) (\<lambda>g.
       if m_getRefreshToken (model options) = None
       then throw (InvalidArgumentException
              ''Invalid argument: model does not implement `getRefreshToken()`'')
       else if m_revokeToken (model options) = None
       then throw (InvalidArgumentException
              ''Invalid argument: model does not implement `revokeToken()`'')
       else if m_saveToken (model options) = None
       then throw (InvalidArgumentException
              ''Invalid argument: model does not implement `saveToken()`'')
       else ret g)"

definition RefreshTokenGrantType_getRefreshToken ::
  "'e platform \<Rightarrow> 'e GrantType \<Rightarrow> Request \<Rightarrow> jsval \<Rightarrow> ('e, jsval) io" where
  "RefreshTokenGrantType_getRefreshToken pf g request client =
     (if \<not> truthy (fld (body request) ''refresh_token'')
      then throw (InvalidRequestException ''Missing parameter: `refresh_token`'')
      else if \<not> is_vschar pf (fld (body request) ''refresh_token'')
      then throw (InvalidRequestException ''Invalid parameter: `refresh_token`'')
      else
        bind (invoke (GetRefreshToken (fld (body request) ''refresh_token''))
               (map_option (\<lambda>f. f (fld (body request) ''refresh_token''))
                  (m_getRefreshToken (model g))))
          (\<lambda>token.
            if \<not> truthy token
            then throw (InvalidGrantException ''Invalid grant: refresh token is invalid'')
            else if \<not> truthy (getprop token ''client'')
            then throw (ServerException
                   ''Server error: `getRefreshToken()` did not return a `client` object'')
            else if \<not> truthy (getprop token ''user'')
            then throw (ServerException
                   ''Server error: `getRefreshToken()` did not return a `user` object'')
            else if \<not> strict_eq (getprop (getprop token ''client'') ''id'') (getprop client ''id'')
            then throw (InvalidGrantException ''Invalid grant: refresh token is invalid'')
            else if truthy (getprop token ''refreshTokenExpiresAt'')
                    \<and> \<not> instanceof_Date (getprop token ''refreshTokenExpiresAt'')
            then throw (ServerException
                   ''Server error: `refreshTokenExpiresAt` must be a Date instance'')
            else if truthy (getprop token ''refreshTokenExpiresAt'')
            then
              bind (new_Date pf) (\<lambda>t.
                if (case getprop token ''refreshTokenExpiresAt'' of JDate x \<Rightarrow> x < t | _ \<Rightarrow> False)
                then throw (InvalidGrantException ''Invalid grant: refresh token has expired'')
                else ret token)
            else ret token))"

definition RefreshTokenGrantType_revokeToken :: "'e GrantType \<Rightarrow> jsval \<Rightarrow> ('e, jsval) io" where
  "RefreshTokenGrantType_revokeToken g token =
     (if strict_eq (alwaysIssueNewRefreshToken g) (JBool False) then ret token
      else
        bind (invoke (RevokeToken token) (map_option (\<lambda>f. f token) (m_revokeToken (model g))))
          (\<lambda>status.
            if \<not> truthy status
            then throw (InvalidGrantException ''Invalid grant: refresh token is invalid'')
            else ret token))"

definition RefreshTokenGrantType_saveToken ::
  "'e platform \<Rightarrow> 'e GrantType \<Rightarrow> jsval \<Rightarrow> jsval \<Rightarrow> jsval \<Rightarrow> ('e, jsval) io" where
  "RefreshTokenGrantType_saveToken pf g user client scope =
     bind (settled (generateAccessToken pf g client user scope)) (\<lambda>p1.
     bind (settled (generateRefreshToken pf g client user scope)) (\<lambda>p2.
     bind (settled (getAccessTokenExpiresAt pf g)) (\<lambda>p3.
     bind (settled (getRefreshTokenExpiresAt pf g)) (\<lambda>p4.
     bind (await p1) (\<lambda>accessToken.
     bind (await p2) (\<lambda>refreshToken.
     bind (await p3) (\<lambda>accessTokenExpiresAt.
     bind (await p4) (\<lambda>refreshTokenExpiresAt.
       let token = JObj
             ([(''accessToken'', accessToken),
               (''accessTokenExpiresAt'', accessTokenExpiresAt),
               (''scope'', scope)]
              @ (if \<not> strict_eq (alwaysIssueNewRefreshToken g) (JBool False)
                 then [(''refreshToken'', refreshToken),
                       (''refreshTokenExpiresAt'', refreshTokenExpiresAt)]
                 else []))
       in invoke (SaveToken token client user)
            (map_option (\<lambda>f. f token client user) (m_saveToken (model g)))))))))))"

definition RefreshTokenGrantType_handle ::
  "'e platform \<Rightarrow> 'e GrantType \<Rightarrow> Request \<Rightarrow> jsval \<Rightarrow> ('e, jsval) io" where
  "RefreshTokenGrantType_handle pf g request client =
     (if \<not> truthy client
      then throw (InvalidArgumentException ''Missing parameter: `client`'')
      else
        bind (RefreshTokenGrantType_getRefreshToken pf g request client) (\<lambda>token.
        bind (RefreshTokenGrantType_revokeToken g token) (\<lambda>_.
          RefreshTokenGrantType_saveToken pf g
            (getprop token ''user'') client (getprop token ''scope''))))"

subsection \<open>PasswordGrantType\<close>

definition PasswordGrantType_new :: "'e GrantType \<Rightarrow> ('e, 'e GrantType) io" where
  "PasswordGrantType_new options =
     bind (AbstractGrantType_new options) (\<lambda>g.
       if m_getUser (model options) = None
       then throw (InvalidArgumentException
              ''Invalid argument: model does not implement `getUser()`'')
       else if m_saveToken (model options) = None
       then throw (InvalidArgumentException
              ''Invalid argument: model does not implement `saveToken()`'')
       else ret g)"

definition PasswordGrantType_getUser ::
  "'e platform \<Rightarrow> 'e GrantType \<Rightarrow> Request \<Rightarrow> ('e, jsval) io" where
  "PasswordGrantType_getUser pf g request =
     (if \<not> truthy (fld (body request) ''username'')
      then throw (InvalidRequestException ''Missing parameter: `username`'')
      else if \<not> truthy (fld (body request) ''password'')
      then throw (InvalidRequestException ''Missing parameter: `password`'')
      else if \<not> is_uchar pf (fld (body request) ''username'')
      then throw (InvalidRequestException ''Invalid parameter: `username`'')
      else if \<not> is_uchar pf (fld (body request) ''password'')
      then throw (InvalidRequestException ''Invalid parameter: `password`'')
      else
        bind (invoke (GetUser (fld (body request) ''username'') (fld (body request) ''password''))
               (map_option (\<lambda>f. f (fld (body request) ''username'') (fld (body request) ''password''))
                  (m_getUser (model g))))
          (\<lambda>user.
            if \<not> truthy user
            then throw (InvalidGrantException ''Invalid grant: user credentials are invalid'')
            else ret user))"

definition PasswordGrantType_saveToken ::
  "'e platform \<Rightarrow> 'e GrantType \<Rightarrow> jsval \<Rightarrow> jsval \<Rightarrow> jsval \<Rightarrow> ('e, jsval) io" where
  "PasswordGrantType_saveToken pf g user client scope =
     bind (settled (validateScope g user client scope)) (\<lambda>p1.
     bind (settled (generateAccessToken pf g client user scope)) (\<lambda>p2.
     bind (settled (generateRefreshToken pf g client user scope)) (\<lambda>p3.
     bind (settled (getAccessTokenExpiresAt pf g)) (\<lambda>p4.
     bind (settled (getRefreshTokenExpiresAt pf g)) (\<lambda>p5.
     bind (await p1) (\<lambda>accessScope.
     bind (await p2) (\<lambda>accessToken.
     bind (await p3) (\<lambda>refreshToken.
     bind (await p4) (\<lambda>accessTokenExpiresAt.
     bind (await p5) (\<lambda>refreshTokenExpiresAt.
       let token = JObj
             [(''accessToken'', accessToken),
              (''accessTokenExpiresAt'', accessTokenExpiresAt),
              (''refreshToken'', refreshToken),
              (''refreshTokenExpiresAt'', refreshTokenExpiresAt),
              (''scope'', accessScope)]
       in invoke (SaveToken token client user)
            (map_option (\<lambda>f. f token client user) (m_saveToken (model g)))))))))))))"

definition PasswordGrantType_handle ::
  "'e platform \<Rightarrow> 'e GrantType \<Rightarrow> Request \<Rightarrow> jsval \<Rightarrow> ('e, jsval) io" where
  "PasswordGrantType_handle pf g request client =
     (if \<not> truthy client
      then throw (InvalidArgumentException ''Missing parameter: `client`'')
      else
        bind (getScope pf request) (\<lambda>scope.
        bind (PasswordGrantType_getUser pf g request) (\<lambda>user.
          PasswordGrantType_saveToken pf g user client scope)))"

subsection \<open>ClientCredentialsGrantType\<close>

definition ClientCredentialsGrantType_new :: "'e GrantType \<Rightarrow> ('e, 'e GrantType) io" where
  "ClientCredentialsGrantType_new options =
     bind (AbstractGrantType_new options) (\<lambda>g.
       if m_getUserFromClient (model options) = None
       then throw (InvalidArgumentException
              ''Invalid argument: model does not implement `getUserFromClient()`'')
       else if m_saveToken (model options) = None
       then throw (InvalidArgumentException
              ''Invalid argument: model does not implement `saveToken()`'')
       else ret g)"

definition ClientCredentialsGrantType_getUserFromClient ::
  "'e GrantType \<Rightarrow> jsval \<Rightarrow> ('e, jsval) io" where
  "ClientCredentialsGrantType_getUserFromClient g client =
     bind (invoke (GetUserFromClient client)
            (map_option (\<lambda>f. f client) (m_getUserFromClient (model g))))
       (\<lambda>user.
         if \<not> truthy user
         then throw (InvalidGrantException ''Invalid grant: user credentials are invalid'')
         else ret user)"

definition ClientCredentialsGrantType_saveToken ::
  "'e platform \<Rightarrow> 'e GrantType \<Rightarrow> jsval \<Rightarrow> jsval \<Rightarrow> jsval \<Rightarrow> ('e, jsval) io" where
  "ClientCredentialsGrantType_saveToken pf g user client scope =
     bind (settled (validateScope g user client scope)) (\<lambda>p1.
     bind (settled (generateAccessToken pf g client user scope)) (\<lambda>p2.
     bind (settled (getAccessTokenExpiresAt pf g)) (\<lambda>p3.
     bind (await p1) (\<lambda>accessScope.
     bind (await p2) (\<lambda>accessToken.
     bind (await p3) (\<lambda>accessTokenExpiresAt.
       let token = JObj
             [(''accessToken'', accessToken),
              (''accessTokenExpiresAt'', accessTokenExpiresAt),
              (''scope'', accessScope)]
       in invoke (SaveToken token client user)
            (map_option (\<lambda>f. f token client user) (m_saveToken (model g)))))))))"

definition ClientCredentialsGrantType_handle ::
  "'e platform \<Rightarrow> 'e GrantType \<Rightarrow> Request \<Rightarrow> jsval \<Rightarrow> ('e, jsval) io" where
  "ClientCredentialsGrantType_handle pf g request client =
     (if \<not> truthy client
      then throw (InvalidArgumentException ''Missing parameter: `client`'')
      else
        bind (getScope pf request) (\<lambda>scope.
        bind (ClientCredentialsGrantType_getUserFromClient g client) (\<lambda>user.
          ClientCredentialsGrantType_saveToken pf g user client scope)))"

section \<open>TokenModel and BearerTokenType\<close>

definition modelAttributes :: "string list" where
  "modelAttributes =
     [''accessToken'', ''accessTokenExpiresAt'', ''client'', ''refreshToken'',
      ''refreshTokenExpiresAt'', ''scope'', ''user'']"

text \<open>\<open>Array.prototype.indexOf\<close>: the first position of the element, \<open>-1\<close> when absent.\<close>

fun indexOf :: "'a list \<Rightarrow> 'a \<Rightarrow> int" where
  "indexOf [] x = - 1"
| "indexOf (y # ys) x =
     (if x = y then 0 else (let i = indexOf ys x in if i < 0 then - 1 else i + 1))"

record TokenModel =
  tm_accessToken :: jsval
  tm_accessTokenExpiresAt :: jsval
  tm_client :: jsval
  tm_refreshToken :: jsval
  tm_refreshTokenExpiresAt :: jsval
  tm_scope :: jsval
  tm_user :: jsval
  tm_customAttributes :: "(string \<times> jsval) list option"
  tm_accessTokenLifetime :: "int option"

text \<open>
  \<open>new TokenModel(data, { allowExtendedTokenAttributes })\<close>. The parameter default
  \<open>data = {}\<close> applies to \<open>undefined\<close> only; reading \<open>data.accessToken\<close> from \<open>null\<close>
  is a \<open>TypeError\<close>. \<open>customAttributes\<close> and \<open>accessTokenLifetime\<close> stay
  \<open>undefined\<close> (\<open>None\<close>) when they are not assigned. \<open>Math.floor\<close> of the quotient of
  two integers is \<open>div\<close>.
\<close>

definition TokenModel_new :: "'e platform \<Rightarrow> jsval \<Rightarrow> jsval \<Rightarrow> ('e, TokenModel) io" where
  "TokenModel_new pf data0 allowExtendedTokenAttributes =
     (if data0 = JNull
      then raise (Foreign ''TypeError: Cannot read properties of null'')
      else
        let data = (if data0 = JUndefined then JObj [] else data0) in
        if \<not> truthy (getprop data ''accessToken'')
        then throw (InvalidArgumentException ''Missing parameter: `accessToken`'')
        else if \<not> truthy (getprop data ''client'')
        then throw (InvalidArgumentException ''Missing parameter: `client`'')
        else if \<not> truthy (getprop data ''user'')
        then throw (InvalidArgumentException ''Missing parameter: `user`'')
        else if truthy (getprop data ''accessTokenExpiresAt'')
                \<and> \<not> instanceof_Date (getprop data ''accessTokenExpiresAt'')
        then throw (InvalidArgumentException ''Invalid parameter: `accessTokenExpiresAt`'')
        else if truthy (getprop data ''refreshTokenExpiresAt'')
                \<and> \<not> instanceof_Date (getprop data ''refreshTokenExpiresAt'')
        then throw (InvalidArgumentException ''Invalid parameter: `refreshTokenExpiresAt`'')
        else
          let customAttributes =
                (if truthy allowExtendedTokenAttributes
                 then Some (case data of
                        JObj kvs \<Rightarrow> filter (\<lambda>(key, v). indexOf modelAttributes key < 0) kvs
                      | _ \<Rightarrow> [])
                 else None)
          in
          bind (case getprop data ''accessTokenExpiresAt'' of
                  JDate x \<Rightarrow> bind (new_Date pf) (\<lambda>t. ret (Some ((x - t) div 1000)))
                | _ \<Rightarrow> ret None)
            (\<lambda>lifetime. ret
              \<lparr>tm_accessToken = getprop data ''accessToken'',
               tm_accessTokenExpiresAt = getprop data ''accessTokenExpiresAt'',
               tm_client = getprop data ''client'',
               tm_refreshToken = getprop data ''refreshToken'',
               tm_refreshTokenExpiresAt = getprop data ''refreshTokenExpiresAt'',
               tm_scope = getprop data ''scope'',
               tm_user = getprop data ''user'',
               tm_customAttributes = customAttributes,
               tm_accessTokenLifetime = lifetime\<rparr>))"

text \<open>
  Modelled from the spec: \<open>token-types/BearerTokenType.ts\<close> is not among the sources.
  The success body is \<open>access_token\<close>, \<open>token_type: "Bearer"\<close>, \<open>expires_in\<close> (the
  lifetime, when one was computed), \<open>refresh_token\<close> and \<open>scope\<close> (each omitted when
  null or absent) and the extended attributes under their own keys. The keys that the
  body has from the token keep the values just named: an extended attribute is added
  under a key that the body does not have yet.
\<close>

record BearerTokenType =
  bt_accessToken :: jsval
  bt_accessTokenLifetime :: "int option"
  bt_refreshToken :: jsval
  bt_scope :: jsval
  bt_customAttributes :: "(string \<times> jsval) list option"

definition null_or_absent :: "jsval \<Rightarrow> bool" where
  "null_or_absent v = (v = JNull \<or> v = JUndefined)"

definition token_fields :: "BearerTokenType \<Rightarrow> (string \<times> jsval) list" where
  "token_fields t =
     [(''access_token'', bt_accessToken t), (''token_type'', JStr ''Bearer'')]
     @ (case bt_accessTokenLifetime t of Some n \<Rightarrow> [(''expires_in'', JNum n)] | None \<Rightarrow> [])
     @ (if null_or_absent (bt_refreshToken t) then []
        else [(''refresh_token'', bt_refreshToken t)])
     @ (if null_or_absent (bt_scope t) then [] else [(''scope'', bt_scope t)])"

definition BearerTokenType_valueOf :: "BearerTokenType \<Rightarrow> jsval" where
  "BearerTokenType_valueOf t =
     JObj (token_fields t
           @ filter (\<lambda>(k, v). k \<notin> set (map fst (token_fields t)))
               (case bt_customAttributes t of Some kvs \<Rightarrow> kvs | None \<Rightarrow> []))"

section \<open>TokenHandler\<close>

definition grantTypes :: "'e platform \<Rightarrow> (string \<times> 'e grant_class) list" where
  "grantTypes pf =
     [(''authorization_code'', \<lambda>options request client.
         bind (AuthorizationCodeGrantType_new options)
           (\<lambda>g. AuthorizationCodeGrantType_handle pf g request client)),
      (''client_credentials'', \<lambda>options request client.
         bind (ClientCredentialsGrantType_new options)
           (\<lambda>g. ClientCredentialsGrantType_handle pf g request client)),
      (''password'', \<lambda>options request client.
         bind (PasswordGrantType_new options)
           (\<lambda>g. PasswordGrantType_handle pf g request client)),
      (''refresh_token'', \<lambda>options request client.
         bind (RefreshTokenGrantType_new options)
           (\<lambda>g. RefreshTokenGrantType_handle pf g request client))]"

text \<open>
  The options of the handler. The lifetimes are numbers of seconds, and a missing
  lifetime is the falsy \<open>0\<close>; \<open>requireClientAuthentication\<close> may be absent.
\<close>

record 'e TokenHandlerOptions =
  o_accessTokenLifetime :: int
  o_model :: "'e Model"
  o_refreshTokenLifetime :: int
  o_allowExtendedTokenAttributes :: jsval
  o_requireClientAuthentication :: "(string \<times> jsval) list option"
  o_alwaysIssueNewRefreshToken :: jsval
  o_extendedGrantTypes :: "(string \<times> 'e grant_class) list"

record 'e TokenHandler =
  th_accessTokenLifetime :: int
  th_grantTypes :: "(string \<times> 'e grant_class) list"
  th_model :: "'e Model"
  th_refreshTokenLifetime :: int
  th_allowExtendedTokenAttributes :: jsval
  th_requireClientAuthentication :: "(string \<times> jsval) list"
  th_alwaysIssueNewRefreshToken :: jsval

definition TokenHandler_new ::
  "'e platform \<Rightarrow> 'e TokenHandlerOptions \<Rightarrow> ('e, 'e TokenHandler) io" where
  "TokenHandler_new pf options =
     (if o_accessTokenLifetime options = 0
      then throw (InvalidArgumentException ''Missing parameter: `accessTokenLifetime`'')
      else if o_refreshTokenLifetime options = 0
      then throw (InvalidArgumentException ''Missing parameter: `refreshTokenLifetime`'')
      else if m_getClient (o_model options) = None
      then throw (InvalidArgumentException
             ''Invalid argument: model does not implement `getClient()`'')
      else ret
        \<lparr>th_accessTokenLifetime = o_accessTokenLifetime options,
         th_grantTypes = AList.merge (grantTypes pf) (o_extendedGrantTypes options),
         th_model = o_model options,
         th_refreshTokenLifetime = o_refreshTokenLifetime options,
         th_allowExtendedTokenAttributes = o_allowExtendedTokenAttributes options,
         th_requireClientAuthentication =
           (case o_requireClientAuthentication options of Some m \<Rightarrow> m | None \<Rightarrow> []),
         th_alwaysIssueNewRefreshToken =
           JBool (\<not> strict_eq (o_alwaysIssueNewRefreshToken options) (JBool False))\<rparr>)"

text \<open>
  The property key that a request field stands for in \<open>obj[grantType]\<close>: the string, or
  \<open>"undefined"\<close> for a missing field (request fields are strings or \<open>undefined\<close>).
\<close>

fun property_key :: "jsval \<Rightarrow> string" where
  "property_key (JStr s) = s"
| "property_key v = ''undefined''"

definition isClientAuthenticationRequired :: "'e TokenHandler \<Rightarrow> jsval \<Rightarrow> jsval" where
  "isClientAuthenticationRequired h grantType =
     (if length (map fst (th_requireClientAuthentication h)) > 0
      then (if getprop (JObj (th_requireClientAuthentication h)) (property_key grantType)
               \<noteq> JUndefined
            then getprop (JObj (th_requireClientAuthentication h)) (property_key grantType)
            else JBool True)
      else JBool True)"

definition auth :: "'e platform \<Rightarrow> Request \<Rightarrow> (string \<times> string) option" where
  "auth pf request =
     (case request_get request ''authorization'' of
        None \<Rightarrow> None
      | Some h \<Rightarrow> basic_auth pf h)"

definition getClientCredentials ::
  "'e platform \<Rightarrow> 'e TokenHandler \<Rightarrow> Request \<Rightarrow> ('e, jsval \<times> jsval) io" where
  "getClientCredentials pf h request =
     (case auth pf request of
        Some (user_name, pass) \<Rightarrow> ret (JStr user_name, JStr pass)
      | None \<Rightarrow>
          if truthy (fld (body request) ''client_id'')
             \<and> truthy (fld (body request) ''client_secret'')
          then ret (fld (body request) ''client_id'', fld (body request) ''client_secret'')
          else if \<not> truthy (isClientAuthenticationRequired h (fld (body request) ''grant_type''))
                  \<and> truthy (fld (body request) ''client_id'')
          then ret (fld (body request) ''client_id'', JUndefined)
          else throw (InvalidClientException
                 ''Invalid client: cannot retrieve client credentials''))"

text \<open>
  \<open>e instanceof InvalidClientException\<close> is told by the name of the exception;
  \<open>new InvalidClientException(e, { code: 401 })\<close> keeps the message of \<open>e\<close>.
\<close>

fun instanceof_InvalidClientException :: "thrown \<Rightarrow> bool" where
  "instanceof_InvalidClientException (OAuth e) = (name e = ''invalid_client'')"
| "instanceof_InvalidClientException (Foreign m) = False"

fun thrown_message :: "thrown \<Rightarrow> string" where
  "thrown_message (OAuth e) = message e"
| "thrown_message (Foreign m) = m"

definition www_authenticate_basic :: string where
  "www_authenticate_basic = ''Basic realm='' @ [CHR 0x22] @ ''Service'' @ [CHR 0x22]"

definition header_truthy :: "string option \<Rightarrow> bool" where
  "header_truthy v = (case v of None \<Rightarrow> False | Some s \<Rightarrow> s \<noteq> [])"

text \<open>
  \<open>TokenHandler.getClient\<close>; \<open>getClient_try\<close> is its \<open>try\<close> block and
  \<open>getClient_catch\<close> its \<open>catch\<close> block.
\<close>

definition getClient_try :: "'e TokenHandler \<Rightarrow> jsval \<Rightarrow> jsval \<Rightarrow> ('e, jsval) io" where
  "getClient_try h clientId clientSecret =
     bind (invoke (GetClient clientId clientSecret)
            (map_option (\<lambda>f. f clientId clientSecret) (m_getClient (th_model h))))
       (\<lambda>client.
         if \<not> truthy client
         then throw (InvalidClientException ''Invalid client: client is invalid'')
         else if \<not> truthy (getprop client ''grants'')
         then throw (ServerException ''Server error: missing client `grants`'')
         else if \<not> instanceof_Array (getprop client ''grants'')
         then throw (ServerException ''Server error: `grants` must be an array'')
         else ret client)"

definition getClient_catch :: "Request \<Rightarrow> thrown \<Rightarrow> ('e, jsval) io" where
  "getClient_catch request e =
     (if instanceof_InvalidClientException e
         \<and> header_truthy (request_get request ''authorization'')
      then
        bind (modify_response (response_set ''WWW-Authenticate'' www_authenticate_basic))
          (\<lambda>_. throw ((InvalidClientException (thrown_message e))\<lparr>code := 401\<rparr>))
      else raise e)"

definition TokenHandler_getClient ::
  "'e platform \<Rightarrow> 'e TokenHandler \<Rightarrow> Request \<Rightarrow> ('e, jsval) io" where
  "TokenHandler_getClient pf h request =
     bind (getClientCredentials pf h request) (\<lambda>(clientId, clientSecret).
       if \<not> truthy clientId
       then throw (InvalidRequestException ''Missing parameter: `client_id`'')
       else if truthy (isClientAuthenticationRequired h (fld (body request) ''grant_type''))
               \<and> \<not> truthy clientSecret
       then throw (InvalidRequestException ''Missing parameter: `client_secret`'')
       else if \<not> is_vschar pf clientId
       then throw (InvalidRequestException ''Invalid parameter: `client_id`'')
       else if truthy clientSecret \<and> \<not> is_vschar pf clientSecret
       then throw (InvalidRequestException ''Invalid parameter: `client_secret`'')
       else catch (getClient_try h clientId clientSecret) (getClient_catch request))"

text \<open>
  \<open>haystack.includes(v)\<close> for a string \<open>v\<close>: membership in an array, a substring test
  on a string, a \<open>TypeError\<close> on values that have no such method.
\<close>

fun is_prefix :: "string \<Rightarrow> string \<Rightarrow> bool" where
  "is_prefix [] ys = True"
| "is_prefix (x # xs) [] = False"
| "is_prefix (x # xs) (y # ys) = (x = y \<and> is_prefix xs ys)"

fun is_substring :: "string \<Rightarrow> string \<Rightarrow> bool" where
  "is_substring xs [] = (xs = [])"
| "is_substring xs (y # ys) = (is_prefix xs (y # ys) \<or> is_substring xs ys)"

fun js_includes :: "jsval \<Rightarrow> string \<Rightarrow> thrown + bool" where
  "js_includes (JArr xs) s = Inr (JStr s \<in> set xs)"
| "js_includes (JStr hay) s = Inr (is_substring s hay)"
| "js_includes v s = Inl (Foreign ''TypeError: includes is not a function'')"

text \<open>
  \<open>client.accessTokenLifetime || this.accessTokenLifetime\<close>; a client's lifetime is a
  number or absent, as its interface declares.
\<close>

definition getAccessTokenLifetime :: "'e TokenHandler \<Rightarrow> jsval \<Rightarrow> int" where
  "getAccessTokenLifetime h client =
     (case getprop client ''accessTokenLifetime'' of
        JNum n \<Rightarrow> if n \<noteq> 0 then n else th_accessTokenLifetime h
      | _ \<Rightarrow> th_accessTokenLifetime h)"

definition getRefreshTokenLifetime :: "'e TokenHandler \<Rightarrow> jsval \<Rightarrow> int" where
  "getRefreshTokenLifetime h client =
     (case getprop client ''refreshTokenLifetime'' of
        JNum n \<Rightarrow> if n \<noteq> 0 then n else th_refreshTokenLifetime h
      | _ \<Rightarrow> th_refreshTokenLifetime h)"

text \<open>
  \<open>handleGrantType\<close>. The registry is tested with \<open>has\<close> of lodash, and the class is
  read afterwards as \<open>this.grantTypes[grantType]\<close>, which is \<open>undefined\<close> when the string
  is not a key of the registry; \<open>new Type(options)\<close> is then a \<open>TypeError\<close>.
\<close>

definition handleGrantType ::
  "'e platform \<Rightarrow> 'e TokenHandler \<Rightarrow> Request \<Rightarrow> jsval \<Rightarrow> ('e, jsval) io" where
  "handleGrantType pf h request client =
     (let grantType = fld (body request) ''grant_type'' in
      if \<not> truthy grantType
      then throw (InvalidRequestException ''Missing parameter: `grant_type`'')
      else if \<not> is_nchar pf grantType \<and> \<not> is_uri pf grantType
      then throw (InvalidRequestException ''Invalid parameter: `grant_type`'')
      else if \<not> has_grantTypes pf (th_grantTypes h) grantType
      then throw (UnsupportedGrantTypeException
             ''Unsupported grant type: `grant_type` is invalid'')
      else
        case js_includes (getprop client ''grants'') (property_key grantType) of
          Inl t \<Rightarrow> raise t
        | Inr False \<Rightarrow> throw (UnauthorizedClientException
               ''Unauthorized client: `grant_type` is invalid'')
        | Inr True \<Rightarrow>
            (case map_of (th_grantTypes h) (property_key grantType) of
               None \<Rightarrow> raise (Foreign ''TypeError: Type is not a constructor'')
             | Some Type \<Rightarrow>
                 Type \<lparr>accessTokenLifetime = getAccessTokenLifetime h client,
                       model = th_model h,
                       refreshTokenLifetime = getRefreshTokenLifetime h client,
                       alwaysIssueNewRefreshToken = th_alwaysIssueNewRefreshToken h\<rparr>
                   request client))"

definition getTokenType :: "TokenModel \<Rightarrow> BearerTokenType" where
  "getTokenType tm =
     \<lparr>bt_accessToken = tm_accessToken tm,
      bt_accessTokenLifetime = tm_accessTokenLifetime tm,
      bt_refreshToken = tm_refreshToken tm,
      bt_scope = tm_scope tm,
      bt_customAttributes = tm_customAttributes tm\<rparr>"

definition updateSuccessResponse :: "BearerTokenType \<Rightarrow> Response \<Rightarrow> Response" where
  "updateSuccessResponse tokenType r =
     response_set ''Pragma'' ''no-cache''
       (response_set ''Cache-Control'' ''no-store''
          (r\<lparr>rbody := BearerTokenType_valueOf tokenType\<rparr>))"

definition updateErrorResponse :: "OAuthException \<Rightarrow> Response \<Rightarrow> Response" where
  "updateErrorResponse error r =
     r\<lparr>rbody := JObj [(''error'', JStr (name error)),
                       (''error_description'', JStr (message error))],
       status := code error\<rparr>"

text \<open>
  \<open>TokenHandler.handle\<close>. The tests that \<open>request\<close> and \<open>response\<close> are instances of
  their classes hold by the types. The two precondition tests stand before the \<open>try\<close>
  statement; \<open>TokenHandler_try\<close> is its \<open>try\<close> block and \<open>TokenHandler_catch\<close> its
  \<open>catch\<close> block.
\<close>

definition TokenHandler_try ::
  "'e platform \<Rightarrow> 'e TokenHandler \<Rightarrow> Request \<Rightarrow> ('e, jsval) io" where
  "TokenHandler_try pf h request =
     bind (TokenHandler_getClient pf h request) (\<lambda>client.
     bind (handleGrantType pf h request client) (\<lambda>data.
     bind (TokenModel_new pf data (th_allowExtendedTokenAttributes h)) (\<lambda>tm.
     bind (modify_response (updateSuccessResponse (getTokenType tm))) (\<lambda>_.
       ret data))))"

definition TokenHandler_catch :: "thrown \<Rightarrow> ('e, jsval) io" where
  "TokenHandler_catch e =
     bind (modify_response (updateErrorResponse (wrap_ServerException e)))
       (\<lambda>_. throw (wrap_ServerException e))"

definition TokenHandler_handle ::
  "'e platform \<Rightarrow> 'e TokenHandler \<Rightarrow> Request \<Rightarrow> ('e, jsval) io" where
  "TokenHandler_handle pf h request =
     (if request_method request \<noteq> ''POST''
      then throw (InvalidRequestException ''Invalid request: method must be POST'')
      else if \<not> request_is pf request ''application/x-www-form-urlencoded''
      then throw (InvalidRequestException
             ''Invalid request: content must be application/x-www-form-urlencoded'')
      else catch (TokenHandler_try pf h request) TokenHandler_catch)"

section \<open>AuthorizeHandler\<close>

text \<open>
  The handler object. \<open>ah_authenticateHandler\<close> is the \<open>handle\<close> method of the
  configured authenticate handler and \<open>ah_ownAuthenticateHandler\<close> tells whether that
  handler is an instance of the library's \<open>AuthenticateHandler\<close>, which is not among the
  sources.
\<close>

record 'e AuthorizeHandler =
  ah_allowEmptyState :: jsval
  ah_authenticateHandler :: "Request \<Rightarrow> ('e, jsval) io"
  ah_ownAuthenticateHandler :: bool
  ah_authorizationCodeLifetime :: int
  ah_model :: "'e Model"

definition generateAuthorizationCode ::
  "'e platform \<Rightarrow> 'e AuthorizeHandler \<Rightarrow> jsval \<Rightarrow> jsval \<Rightarrow> jsval \<Rightarrow> ('e, jsval) io" where
  "generateAuthorizationCode pf h client user scope =
     (case m_generateAuthorizationCode (ah_model h) of
        Some f \<Rightarrow> invoke GenerateAuthorizationCode (Some (f client user scope))
      | None \<Rightarrow> random_token pf)"

definition getAuthorizationCodeLifetime ::
  "'e platform \<Rightarrow> 'e AuthorizeHandler \<Rightarrow> ('e, jsval) io" where
  "getAuthorizationCodeLifetime pf h =
     bind (new_Date pf) (\<lambda>t. ret (JDate (t + 1000 * ah_authorizationCodeLifetime h)))"

text \<open>\<open>xs.length === 0\<close>\<close>

fun length_is_zero :: "jsval \<Rightarrow> bool" where
  "length_is_zero (JArr xs) = (xs = [])"
| "length_is_zero (JStr s) = (s = [])"
| "length_is_zero v = False"

definition AuthorizeHandler_getClient ::
  "'e platform \<Rightarrow> 'e AuthorizeHandler \<Rightarrow> Request \<Rightarrow> ('e, jsval) io" where
  "AuthorizeHandler_getClient pf h request =
     (let clientId = js_or (fld (body request) ''client_id'') (fld (query request) ''client_id'');
          redirectUri = js_or (fld (body request) ''redirect_uri'')
                              (fld (query request) ''redirect_uri'')
      in
      if \<not> truthy clientId
      then throw (InvalidRequestException ''Missing parameter: `client_id`'')
      else if \<not> is_vschar pf clientId
      then throw (InvalidRequestException ''Invalid parameter: `client_id`'')
      else if truthy redirectUri \<and> \<not> is_uri pf redirectUri
      then throw (InvalidRequestException ''Invalid request: `redirect_uri` is not a valid URI'')
      else
        bind (invoke (GetClient clientId JUndefined)
               (map_option (\<lambda>f. f clientId JUndefined) (m_getClient (ah_model h))))
          (\<lambda>client.
            if \<not> truthy client
            then throw (InvalidClientException ''Invalid client: client credentials are invalid'')
            else if \<not> truthy (getprop client ''grants'')
            then throw (InvalidClientException ''Invalid client: missing client `grants`'')
            else
              case js_includes (getprop client ''grants'') ''authorization_code'' of
                Inl t \<Rightarrow> raise t
              | Inr False \<Rightarrow> throw (UnauthorizedClientException
                    ''Unauthorized client: `grant_type` is invalid'')
              | Inr True \<Rightarrow>
                  if \<not> truthy (getprop client ''redirectUris'')
                     \<or> length_is_zero (getprop client ''redirectUris'')
                  then throw (InvalidClientException
                         ''Invalid client: missing client `redirectUri`'')
                  else if \<not> truthy redirectUri then ret client
                  else
                    case js_includes (getprop client ''redirectUris'') (property_key redirectUri) of
                      Inl t \<Rightarrow> raise t
                    | Inr False \<Rightarrow> throw (InvalidClientException
                          ''Invalid client: `redirect_uri` does not match client value'')
                    | Inr True \<Rightarrow> ret client))"

definition AuthorizeHandler_getScope :: "'e platform \<Rightarrow> Request \<Rightarrow> ('e, jsval) io" where
  "AuthorizeHandler_getScope pf request =
     (let scope = js_or (fld (body request) ''scope'') (fld (query request) ''scope'') in
      if \<not> is_nqschar pf scope
      then throw (InvalidScopeException ''Invalid parameter: `scope`'')
      else ret scope)"

definition getState ::
  "'e platform \<Rightarrow> 'e AuthorizeHandler \<Rightarrow> Request \<Rightarrow> ('e, jsval) io" where
  "getState pf h request =
     (let state = js_or (fld (body request) ''state'') (fld (query request) ''state'') in
      if \<not> truthy (ah_allowEmptyState h) \<and> \<not> truthy state
      then throw (InvalidRequestException ''Missing parameter: `state`'')
      else if \<not> is_vschar pf state
      then throw (InvalidRequestException ''Invalid parameter: `state`'')
      else ret state)"

text \<open>
  Reading \<open>data.user\<close> from a result that is \<open>undefined\<close> or \<open>null\<close> is a
  \<open>TypeError\<close>.
\<close>

definition AuthorizeHandler_getUser ::
  "'e AuthorizeHandler \<Rightarrow> Request \<Rightarrow> ('e, jsval) io" where
  "AuthorizeHandler_getUser h request =
     (if ah_ownAuthenticateHandler h
      then bind (ah_authenticateHandler h request) (\<lambda>data.
             if data = JUndefined \<or> data = JNull
             then raise (Foreign ''TypeError: Cannot read properties of undefined'')
             else ret (getprop data ''user''))
      else bind (ah_authenticateHandler h request) (\<lambda>user.
             if \<not> truthy user
             then throw (ServerException
                    ''Server error: `handle()` did not return a `user` object'')
             else ret user))"

text \<open>\<open>client.redirectUris[0]\<close>\<close>

fun first_element :: "jsval \<Rightarrow> jsval" where
  "first_element (JArr (x # xs)) = x"
| "first_element (JStr (c # cs)) = JStr [c]"
| "first_element v = JUndefined"

definition getRedirectUri :: "Request \<Rightarrow> jsval \<Rightarrow> jsval" where
  "getRedirectUri request client =
     js_or (fld (body request) ''redirect_uri'')
       (js_or (fld (query request) ''redirect_uri'')
          (first_element (getprop client ''redirectUris'')))"

definition AuthorizeHandler_saveAuthorizationCode ::
  "'e AuthorizeHandler \<Rightarrow> jsval \<Rightarrow> jsval \<Rightarrow> jsval \<Rightarrow> jsval \<Rightarrow> jsval \<Rightarrow> jsval
     \<Rightarrow> ('e, jsval) io" where
  "AuthorizeHandler_saveAuthorizationCode h authorizationCode expiresAt scope client
       redirectUri user =
     (let acode = JObj [(''authorizationCode'', authorizationCode),
                        (''expiresAt'', expiresAt),
                        (''redirectUri'', redirectUri),
                        (''scope'', scope)]
      in invoke (SaveAuthorizationCode acode client user)
           (map_option (\<lambda>f. f acode client user) (m_saveAuthorizationCode (ah_model h))))"

text \<open>
  The registry of response types has the single key \<open>code\<close>, whose class is
  \<open>CodeResponseType\<close>. It is tested with \<open>has\<close> of lodash, and the class is read
  afterwards as \<open>responseTypes[responseType]\<close>, which is \<open>undefined\<close> (\<open>None\<close>) when the
  string is not the key.
\<close>

datatype response_type_class = CodeResponseType

definition getResponseType ::
  "'e platform \<Rightarrow> Request \<Rightarrow> ('e, response_type_class option) io" where
  "getResponseType pf request =
     (let responseType = js_or (fld (body request) ''response_type'')
                               (fld (query request) ''response_type'')
      in
      if \<not> truthy responseType
      then throw (InvalidRequestException ''Missing parameter: `response_type`'')
      else if \<not> has_responseTypes pf responseType
      then throw (UnsupportedResponseTypeException
             ''Unsupported response type: `response_type` is not supported'')
      else ret (if property_key responseType = ''code'' then Some CodeResponseType else None))"

text \<open>
  \<open>new CodeResponseType(code)\<close> and its \<open>buildRedirectUri\<close>; \<open>parse\<close> of a value that
  is not a string is a \<open>TypeError\<close>.
\<close>

definition CodeResponseType_new :: "jsval \<Rightarrow> ('e, jsval) io" where
  "CodeResponseType_new c =
     (if \<not> truthy c then throw (InvalidArgumentException ''Missing parameter: `code`'')
      else ret c)"

definition parse_uri :: "'e platform \<Rightarrow> jsval \<Rightarrow> ('e, Url) io" where
  "parse_uri pf v =
     (case v of
        JStr s \<Rightarrow> ret (url_parse pf s)
      | _ \<Rightarrow> raise (Foreign ''TypeError: The url argument must be of type string''))"

definition buildRedirectUri :: "'e platform \<Rightarrow> jsval \<Rightarrow> jsval \<Rightarrow> ('e, Url) io" where
  "buildRedirectUri pf this_code redirectUri =
     (if \<not> truthy redirectUri
      then throw (InvalidArgumentException ''Missing parameter: `redirectUri`'')
      else bind (parse_uri pf redirectUri) (\<lambda>uri.
             ret (uri\<lparr>u_query := AList.update ''code'' this_code (u_query uri),
                      u_search := None\<rparr>)))"

definition buildErrorRedirectUri ::
  "'e platform \<Rightarrow> jsval \<Rightarrow> OAuthException \<Rightarrow> ('e, Url) io" where
  "buildErrorRedirectUri pf redirectUri error =
     bind (parse_uri pf redirectUri) (\<lambda>uri.
       ret (uri\<lparr>u_query :=
              [(''error'', JStr (name error))]
              @ (if message error \<noteq> []
                 then [(''error_description'', JStr (message error))] else [])\<rparr>))"

definition updateResponse :: "'e platform \<Rightarrow> Url \<Rightarrow> jsval \<Rightarrow> ('e, unit) io" where
  "updateResponse pf redirectUri state =
     modify_response (response_redirect (url_format pf
       (if truthy state
        then redirectUri\<lparr>u_query := AList.update ''state'' state (u_query redirectUri)\<rparr>
        else redirectUri)))"

text \<open>
  The \<open>catch\<close> block of \<open>handle\<close>, with the value that the variable \<open>state\<close> has when
  the error is caught.
\<close>

definition redirect_error :: "'e platform \<Rightarrow> jsval \<Rightarrow> jsval \<Rightarrow> thrown \<Rightarrow> ('e, 'a) io" where
  "redirect_error pf uri state e =
     bind (buildErrorRedirectUri pf uri (wrap_ServerException e)) (\<lambda>redirectUri.
     bind (updateResponse pf redirectUri state) (\<lambda>_.
       throw (wrap_ServerException e)))"

text \<open>
  \<open>AuthorizeHandler.handle\<close>. The test of \<open>query.allowed\<close> and the fan-out that resolves
  the client and the user stand before the \<open>try\<close> block. In the block, \<open>state\<close> is
  assigned by the third statement, so an error of the first three statements is caught
  with \<open>state\<close> still \<open>undefined\<close>. In \<open>new ResponseType(code.authorizationCode)\<close> the
  argument is read before the class is used as a constructor.
\<close>

definition AuthorizeHandler_handle ::
  "'e platform \<Rightarrow> 'e AuthorizeHandler \<Rightarrow> Request \<Rightarrow> ('e, jsval) io" where
  "AuthorizeHandler_handle pf h request =
     (if strict_eq (fld (query request) ''allowed'') (JStr ''false'')
      then throw (AccessDeniedException ''Access denied: user denied access to application'')
      else
        bind (getAuthorizationCodeLifetime pf h) (\<lambda>expiresAt.
        bind (settled (AuthorizeHandler_getClient pf h request)) (\<lambda>p2.
        bind (settled (AuthorizeHandler_getUser h request)) (\<lambda>p3.
        bind (await p2) (\<lambda>client.
        bind (await p3) (\<lambda>user.
          let uri = getRedirectUri request client in
          bind (catch
                  (bind (AuthorizeHandler_getScope pf request) (\<lambda>scope.
                   bind (generateAuthorizationCode pf h client user scope) (\<lambda>authorizationCode.
                   bind (getState pf h request) (\<lambda>state.
                     ret (scope, authorizationCode, state)))))
                  (redirect_error pf uri JUndefined))
            (\<lambda>(scope, authorizationCode, state).
              catch
                (bind (getResponseType pf request) (\<lambda>ResponseType.
                 bind (AuthorizeHandler_saveAuthorizationCode h authorizationCode expiresAt
                         scope client uri user) (\<lambda>acode.
                 bind (if acode = JUndefined \<or> acode = JNull
                       then raise (Foreign ''TypeError: Cannot read properties of undefined'')
                       else case ResponseType of
                           None \<Rightarrow> raise (Foreign ''TypeError: ResponseType is not a constructor'')
                         | Some CodeResponseType \<Rightarrow>
                             CodeResponseType_new (getprop acode ''authorizationCode''))
                   (\<lambda>responseType.
                 bind (buildRedirectUri pf responseType uri) (\<lambda>redirectUri.
                 bind (updateResponse pf redirectUri state) (\<lambda>_.
                   ret acode))))))
                (redirect_error pf uri state))))))))"

section \<open>A concrete platform and model\<close>

text \<open>
  An instance of everything the library is given, used to run the handlers on concrete
  requests.

  Modelled from the spec: the validators of \<open>validators/IsValidator\<close>, which is not
  among the sources, follow the character classes of RFC 6749, Appendix A, as the spec
  lists them; a regular expression tested against \<open>undefined\<close> sees the string
  \<open>"undefined"\<close>.
\<close>

definition char_in :: "nat \<Rightarrow> nat \<Rightarrow> char \<Rightarrow> bool" where
  "char_in lo hi c = (lo \<le> of_char c \<and> (of_char c :: nat) \<le> hi)"

definition alpha :: "char \<Rightarrow> bool" where
  "alpha c = (char_in 0x41 0x5A c \<or> char_in 0x61 0x7A c)"

definition digit :: "char \<Rightarrow> bool" where
  "digit c = char_in 0x30 0x39 c"

fun tested_string :: "jsval \<Rightarrow> string option" where
  "tested_string (JStr s) = Some s"
| "tested_string JUndefined = Some ''undefined''"
| "tested_string v = None"

definition all_chars :: "(char \<Rightarrow> bool) \<Rightarrow> jsval \<Rightarrow> bool" where
  "all_chars p v = (case tested_string v of None \<Rightarrow> False | Some s \<Rightarrow> s \<noteq> [] \<and> list_all p s)"

definition demo_vschar :: "jsval \<Rightarrow> bool" where
  "demo_vschar = all_chars (char_in 0x20 0x7E)"

definition demo_nchar :: "jsval \<Rightarrow> bool" where
  "demo_nchar = all_chars (\<lambda>c. c = CHR ''-'' \<or> c = CHR ''.'' \<or> c = CHR ''_'' \<or> alpha c \<or> digit c)"

definition demo_nqschar :: "jsval \<Rightarrow> bool" where
  "demo_nqschar = all_chars (\<lambda>c. char_in 0x20 0x21 c \<or> char_in 0x23 0x5B c \<or> char_in 0x5D 0x7E c)"

definition demo_uchar :: "jsval \<Rightarrow> bool" where
  "demo_uchar = all_chars (\<lambda>c. of_char c = (9::nat) \<or> char_in 0x20 0x7E c \<or> char_in 0x80 0xFF c)"

text \<open>A URI: a letter, further scheme characters, and a colon.\<close>

definition scheme_char :: "char \<Rightarrow> bool" where
  "scheme_char c = (alpha c \<or> digit c \<or> c = CHR ''+'' \<or> c = CHR ''.'' \<or> c = CHR ''-'')"

definition demo_uri :: "jsval \<Rightarrow> bool" where
  "demo_uri v =
     (case tested_string v of
        None \<Rightarrow> False
      | Some [] \<Rightarrow> False
      | Some (c # cs) \<Rightarrow>
          alpha c \<and> takeWhile scheme_char cs \<noteq> []
          \<and> (case dropWhile scheme_char cs of [] \<Rightarrow> False | d # ds \<Rightarrow> d = CHR '':''))"

text \<open>
  The \<open>basic-auth\<close> package on ASCII credentials: the header must be the scheme
  \<open>Basic\<close> (in any case), spaces, and one base64 token; the decoded text is split at
  its first colon.
\<close>

definition base64_alphabet :: string where
  "base64_alphabet =
     ''ABCDEFGHIJKLMNOPQRSTUVWXYZabcdefghijklmnopqrstuvwxyz0123456789+/''"

fun position :: "char \<Rightarrow> string \<Rightarrow> nat option" where
  "position c [] = None"
| "position c (x # xs) = (if c = x then Some 0 else map_option Suc (position c xs))"

fun sextets :: "string \<Rightarrow> nat list" where
  "sextets [] = []"
| "sextets (c # cs) =
     (case position c base64_alphabet of None \<Rightarrow> sextets cs | Some n \<Rightarrow> n # sextets cs)"

fun octets :: "nat list \<Rightarrow> nat list" where
  "octets (a # b # c # d # r) =
     (a * 4 + b div 16) # ((b mod 16) * 16 + c div 4) # ((c mod 4) * 64 + d) # octets r"
| "octets [a, b, c] = [a * 4 + b div 16, (b mod 16) * 16 + c div 4]"
| "octets [a, b] = [a * 4 + b div 16]"
| "octets r = []"

definition base64_decode :: "string \<Rightarrow> string" where
  "base64_decode s = map char_of (octets (sextets s))"

definition to_lower :: "char \<Rightarrow> char" where
  "to_lower c = (if char_in 0x41 0x5A c then char_of (of_char c + (32::nat)) else c)"

definition token_char :: "char \<Rightarrow> bool" where
  "token_char c = (alpha c \<or> digit c \<or> c \<in> set ''._~+/-'')"

definition demo_basic_auth :: "string \<Rightarrow> (string \<times> string) option" where
  "demo_basic_auth h =
     (let h1 = dropWhile (\<lambda>c. c = CHR '' '') h;
          h2 = drop 5 h1;
          h3 = dropWhile (\<lambda>c. c = CHR '' '') h2;
          token = takeWhile token_char h3;
          rest = dropWhile (\<lambda>c. c = CHR '' '')
                   (dropWhile (\<lambda>c. c = CHR ''='') (dropWhile token_char h3));
          decoded = base64_decode token
      in
      if map to_lower (take 5 h1) \<noteq> ''basic'' \<or> h3 = h2 \<or> token = [] \<or> rest \<noteq> []
         \<or> CHR '':'' \<notin> set decoded
      then None
      else Some (takeWhile (\<lambda>c. c \<noteq> CHR '':'') decoded,
                 drop 1 (dropWhile (\<lambda>c. c \<noteq> CHR '':'') decoded)))"

text \<open>
  URLs: \<open>parse\<close> keeps the string and splits off nothing (the demo redirect URIs have no
  query of their own); \<open>format\<close> appends the query parameters that are strings.
\<close>

definition demo_url_parse :: "string \<Rightarrow> Url" where
  "demo_url_parse s = \<lparr>u_source = s, u_query = [], u_search = None\<rparr>"

fun format_query :: "(string \<times> jsval) list \<Rightarrow> string" where
  "format_query [] = []"
| "format_query ((k, JStr v) # kvs) =
     k @ ''='' @ v @ (if kvs = [] then [] else ''&'' @ format_query kvs)"
| "format_query (kv # kvs) = format_query kvs"

definition demo_url_format :: "Url \<Rightarrow> string" where
  "demo_url_format u =
     u_source u @ (case u_search u of
        Some q \<Rightarrow> q
      | None \<Rightarrow> if u_query u = [] then [] else ''?'' @ format_query (u_query u))"

text \<open>
  \<open>has\<close> of the \<open>lodash\<close> package on a registry of classes, for a path written with
  letters, digits, underscores and dots. A string without a dot, and a string that is a
  key of the registry, is the path of that one key. Any other string is the path of
  its dot-separated parts: the first part has to be a key of the registry and leads to
  the class registered there, and the second part has to be an own property of that
  class, which are \<open>length\<close>, \<open>name\<close> and \<open>prototype\<close>. The demo follows a path no
  further.
\<close>

fun split_dots :: "string \<Rightarrow> string list" where
  "split_dots [] = [[]]"
| "split_dots (c # cs) =
     (if c = CHR ''.'' then [] # split_dots cs
      else case split_dots cs of p # ps \<Rightarrow> (c # p) # ps | [] \<Rightarrow> [[c]])"

definition class_own_properties :: "string list" where
  "class_own_properties = [''length'', ''name'', ''prototype'']"

definition demo_has :: "string list \<Rightarrow> jsval \<Rightarrow> bool" where
  "demo_has keys path =
     (let s = property_key path in
      if CHR ''.'' \<in> set s \<and> s \<notin> set keys
      then (case split_dots s of
              [k, p] \<Rightarrow> k \<in> set keys \<and> p \<in> set class_own_properties
            | _ \<Rightarrow> False)
      else s \<in> set keys)"

text \<open>
  The outside state: the authorization codes and refresh tokens that are still live,
  and the clock.
\<close>

record store =
  live :: "jsval list"
  clock :: int

definition demo_platform :: "store platform" where
  "demo_platform = \<lparr>
     now = (\<lambda>e. (clock e, e)),
     GenerateRandomToken = (\<lambda>e. (''f0e1d2c3'', e)),
     is_vschar = demo_vschar,
     is_nchar = demo_nchar,
     is_uri = demo_uri,
     is_nqschar = demo_nqschar,
     is_uchar = demo_uchar,
     request_is = (\<lambda>r t. map_of (headers r) ''content-type'' = Some t),
     basic_auth = demo_basic_auth,
     url_parse = demo_url_parse,
     url_format = demo_url_format,
     has_grantTypes = (\<lambda>registry. demo_has (map fst registry)),
     has_responseTypes = demo_has [''code'']\<rparr>"

definition demo_client :: jsval where
  "demo_client = JObj
     [(''id'', JStr ''c1''),
      (''grants'', JArr [JStr ''authorization_code'', JStr ''refresh_token'', JStr ''password'']),
      (''redirectUris'', JArr [JStr ''https://x.test/cb''])]"

definition demo_user :: jsval where
  "demo_user = JObj [(''id'', JStr ''u1'')]"

definition demo_getClient :: "jsval \<Rightarrow> jsval \<Rightarrow> store model_fn" where
  "demo_getClient clientId clientSecret e =
     (if clientId = JStr ''c1'' \<and> (clientSecret = JStr ''s1'' \<or> clientSecret = JUndefined)
      then Inr demo_client else Inr JNull, e)"

definition demo_getAuthorizationCode :: "jsval \<Rightarrow> store model_fn" where
  "demo_getAuthorizationCode c e =
     (if c \<in> set (live e)
      then Inr (JObj [(''authorizationCode'', c), (''expiresAt'', JDate 60000),
                      (''scope'', JStr ''read''),
                      (''client'', demo_client), (''user'', demo_user)])
      else Inr JNull, e)"

definition demo_revokeAuthorizationCode :: "jsval \<Rightarrow> store model_fn" where
  "demo_revokeAuthorizationCode acode e =
     (Inr (JBool (getprop acode ''authorizationCode'' \<in> set (live e))),
      e\<lparr>live := removeAll (getprop acode ''authorizationCode'') (live e)\<rparr>)"

definition demo_getRefreshToken :: "jsval \<Rightarrow> store model_fn" where
  "demo_getRefreshToken t e =
     (if t \<in> set (live e)
      then Inr (JObj [(''refreshToken'', t), (''scope'', JStr ''read''),
                      (''client'', demo_client), (''user'', demo_user)])
      else Inr JNull, e)"

definition demo_revokeToken :: "jsval \<Rightarrow> store model_fn" where
  "demo_revokeToken token e =
     (Inr (JBool (getprop token ''refreshToken'' \<in> set (live e))),
      e\<lparr>live := removeAll (getprop token ''refreshToken'') (live e)\<rparr>)"

definition demo_saveToken :: "jsval \<Rightarrow> jsval \<Rightarrow> jsval \<Rightarrow> store model_fn" where
  "demo_saveToken token client user e =
     (Inr (case token of
             JObj kvs \<Rightarrow> JObj (kvs @ [(''client'', client), (''user'', user)])
           | v \<Rightarrow> v),
      e\<lparr>live := (case getprop token ''refreshToken'' of
                    JUndefined \<Rightarrow> live e
                  | t \<Rightarrow> t # live e)\<rparr>)"

definition demo_saveAuthorizationCode :: "jsval \<Rightarrow> jsval \<Rightarrow> jsval \<Rightarrow> store model_fn" where
  "demo_saveAuthorizationCode acode client user e =
     (Inr acode, e\<lparr>live := getprop acode ''authorizationCode'' # live e\<rparr>)"

definition demo_model :: "store Model" where
  "demo_model = \<lparr>
     m_getClient = Some demo_getClient,
     m_getAuthorizationCode = Some demo_getAuthorizationCode,
     m_revokeAuthorizationCode = Some demo_revokeAuthorizationCode,
     m_getRefreshToken = Some demo_getRefreshToken,
     m_revokeToken = Some demo_revokeToken,
     m_getUser = Some (\<lambda>u p e. (Inr demo_user, e)),
     m_getUserFromClient = Some (\<lambda>c e. (Inr demo_user, e)),
     m_saveToken = Some demo_saveToken,
     m_saveAuthorizationCode = Some demo_saveAuthorizationCode,
     m_validateScope = None,
     m_generateAccessToken = None,
     m_generateRefreshToken = None,
     m_generateAuthorizationCode = None\<rparr>"

definition demo_grant :: "jsval \<Rightarrow> store GrantType" where
  "demo_grant always = \<lparr>accessTokenLifetime = 3600, model = demo_model,
     refreshTokenLifetime = 1209600, alwaysIssueNewRefreshToken = always\<rparr>"

definition demo_response :: Response where
  "demo_response = \<lparr>status = 200, rbody = JObj [], rheaders = []\<rparr>"

definition demo_world :: "jsval list \<Rightarrow> store world" where
  "demo_world codes = \<lparr>env = \<lparr>live = codes, clock = 1000\<rparr>, calls = [], response = demo_response\<rparr>"

definition form_request :: "(string \<times> string) list \<Rightarrow> (string \<times> string) list \<Rightarrow> Request" where
  "form_request hs kvs =
     \<lparr>request_method = ''POST'',
      headers = (''content-type'', ''application/x-www-form-urlencoded'') # hs,
      query = [], body = kvs\<rparr>"

text \<open>
  Scenario S1 and S2 of the spec at the grant: exchanging the code \<open>abc\<close>, and
  exchanging it again in the world the first exchange leaves behind. The third run is
  an exchange whose revocation the model refuses.
\<close>

definition code_request :: Request where
  "code_request = form_request []
     [(''grant_type'', ''authorization_code''), (''code'', ''abc''),
      (''client_id'', ''c1''), (''client_secret'', ''s1'')]"

definition first_exchange :: "(thrown + jsval) \<times> store world" where
  "first_exchange =
     AuthorizationCodeGrantType_handle demo_platform (demo_grant JUndefined) code_request
       demo_client (demo_world [JStr ''abc''])"

definition second_exchange :: "(thrown + jsval) \<times> store world" where
  "second_exchange =
     AuthorizationCodeGrantType_handle demo_platform (demo_grant JUndefined) code_request
       demo_client ((snd first_exchange)\<lparr>calls := []\<rparr>)"

definition refused_exchange :: "(thrown + jsval) \<times> store world" where
  "refused_exchange =
     AuthorizationCodeGrantType_handle demo_platform
       ((demo_grant JUndefined)\<lparr>model := demo_model
           \<lparr>m_revokeAuthorizationCode := Some (\<lambda>acode e. (Inr (JBool False), e))\<rparr>\<rparr>)
       code_request demo_client (demo_world [JStr ''abc''])"

text \<open>A token handler over the demo model, and the options it is constructed from.\<close>

definition demo_options :: "(string \<times> jsval) list option \<Rightarrow> store TokenHandlerOptions" where
  "demo_options rca = \<lparr>
     o_accessTokenLifetime = 3600,
     o_model = demo_model,
     o_refreshTokenLifetime = 1209600,
     o_allowExtendedTokenAttributes = JBool False,
     o_requireClientAuthentication = rca,
     o_alwaysIssueNewRefreshToken = JUndefined,
     o_extendedGrantTypes = []\<rparr>"

definition demo_handler :: "(string \<times> jsval) list \<Rightarrow> jsval \<Rightarrow> store TokenHandler" where
  "demo_handler rca allow = \<lparr>
     th_accessTokenLifetime = 3600,
     th_grantTypes = grantTypes demo_platform,
     th_model = demo_model,
     th_refreshTokenLifetime = 1209600,
     th_allowExtendedTokenAttributes = allow,
     th_requireClientAuthentication = rca,
     th_alwaysIssueNewRefreshToken = JBool True\<rparr>"

text \<open>A scope with a double quote, which is outside \<open>NQSCHAR\<close>.\<close>

definition malformed_scope_request :: Request where
  "malformed_scope_request = form_request []
     [(''grant_type'', ''password''), (''username'', ''alice''), (''password'', ''secret''),
      (''scope'', ''read'' @ [CHR 0x22]),
      (''client_id'', ''c1''), (''client_secret'', ''s1'')]"

text \<open>Requests for the grant dispatch: scenario S6 of the spec and its neighbours.\<close>

definition grant_request :: "(string \<times> string) list \<Rightarrow> Request" where
  "grant_request kvs = form_request [] (kvs @ [(''client_id'', ''c1''), (''client_secret'', ''s1'')])"

text \<open>
  Scenario S5 of the spec: the authorize request of S4 with \<open>allowed=false\<close>, handled
  by a handler whose authenticate handler resolves the user.
\<close>

definition demo_authorize_handler :: "store AuthorizeHandler" where
  "demo_authorize_handler = \<lparr>
     ah_allowEmptyState = JBool False,
     ah_authenticateHandler = (\<lambda>request. ret demo_user),
     ah_ownAuthenticateHandler = False,
     ah_authorizationCodeLifetime = 300,
     ah_model = demo_model\<rparr>"

definition authorize_request :: "(string \<times> string) list \<Rightarrow> Request" where
  "authorize_request extra = \<lparr>
     request_method = ''GET'', headers = [],
     query = [(''client_id'', ''c1''), (''response_type'', ''code''),
              (''redirect_uri'', ''https://x.test/cb''), (''state'', ''xyz'')] @ extra,
     body = []\<rparr>"

definition denied_authorize :: "(thrown + jsval) \<times> store world" where
  "denied_authorize =
     AuthorizeHandler_handle demo_platform demo_authorize_handler
       (authorize_request [(''allowed'', ''false'')]) (demo_world [])"

text \<open>
  Failing token requests: one sent with \<open>GET\<close>, and one handled while the model's
  \<open>getClient\<close> throws an error of its own.
\<close>

definition get_token_request :: Request where
  "get_token_request = (grant_request [(''grant_type'', ''password'')])\<lparr>request_method := ''GET''\<rparr>"

definition broken_handler :: "store TokenHandler" where
  "broken_handler = (demo_handler [] (JBool False))\<lparr>th_model := demo_model
     \<lparr>m_getClient := Some (\<lambda>clientId clientSecret e. (Inl (Foreign ''connection lost''), e))\<rparr>\<rparr>"

definition password_request :: Request where
  "password_request = grant_request
     [(''grant_type'', ''password''), (''username'', ''alice''), (''password'', ''secret'')]"

text \<open>A token record without an expiry.\<close>

definition token_without_expiry :: jsval where
  "token_without_expiry = JObj
     [(''accessToken'', JStr ''f0e1d2c3''), (''client'', demo_client), (''user'', demo_user)]"

text \<open>
  Token requests of a client \<open>c9\<close> that the model does not know: with its credentials
  in a Basic \<open>Authorization\<close> header (\<open>Yzk6czk=\<close> is \<open>c9:s9\<close>), with its credentials
  in the form body only, and with its credentials in the form body beside an
  \<open>Authorization\<close> header of another scheme.
\<close>

definition unknown_client_fields :: "(string \<times> string) list" where
  "unknown_client_fields =
     [(''grant_type'', ''password''), (''username'', ''alice''), (''password'', ''secret'')]"

definition basic_header_request :: Request where
  "basic_header_request =
     form_request [(''authorization'', ''Basic Yzk6czk='')] unknown_client_fields"

definition body_only_request :: Request where
  "body_only_request =
     form_request [] (unknown_client_fields @ [(''client_id'', ''c9''), (''client_secret'', ''s9'')])"

definition bearer_header_request :: Request where
  "bearer_header_request =
     form_request [(''authorization'', ''Bearer abc'')]
       (unknown_client_fields @ [(''client_id'', ''c9''), (''client_secret'', ''s9'')])"





text \<open>
  A token request whose \<open>grant_type\<close> is \<open>password.prototype\<close>, which is \<open>NCHAR\<close> and is
  not a key of the registry; a client that lists this string among its grants, and a
  handler whose model knows that client.
\<close>

definition dotted_request :: Request where
  "dotted_request = grant_request [(''grant_type'', ''password.prototype'')]"

definition dotted_client :: jsval where
  "dotted_client = JObj
     [(''id'', JStr ''c1''), (''grants'', JArr [JStr ''password'', JStr ''password.prototype''])]"

definition dotted_handler :: "store TokenHandler" where
  "dotted_handler = (demo_handler [] (JBool False))\<lparr>th_model := demo_model
     \<lparr>m_getClient := Some (\<lambda>clientId clientSecret e. (Inr dotted_client, e))\<rparr>\<rparr>"




definition own_record_handler :: "jsval \<Rightarrow> store TokenHandler" where
  "own_record_handler allow = (demo_handler [] allow)\<lparr>th_model := demo_model
     \<lparr>m_saveToken := Some (\<lambda>token client user e. (Inr token_without_expiry, e))\<rparr>\<rparr>"

definition own_record_exchange :: "jsval \<Rightarrow> (thrown + jsval) \<times> store world" where
  "own_record_exchange allow =
     TokenHandler_handle demo_platform (own_record_handler allow) code_request
       (demo_world [JStr ''abc''])"

definition extended_exchange :: "jsval \<Rightarrow> (thrown + jsval) \<times> store world" where
  "extended_exchange allow =
     TokenHandler_handle demo_platform (demo_handler [] allow) code_request
       (demo_world [JStr ''abc''])"

section \<open>Properties of the call log\<close>

fun is_SaveToken :: "call \<Rightarrow> bool" where
  "is_SaveToken (SaveToken t c u) = True"
| "is_SaveToken c = False"

definition token_saved :: "event list \<Rightarrow> bool" where
  "token_saved cs = (\<exists>e \<in> set cs. is_SaveToken (fst e))"

text \<open>An outcome that is a returned falsy value, such as \<open>null\<close> or \<open>false\<close>.\<close>

fun falsy_result :: "thrown + jsval \<Rightarrow> bool" where
  "falsy_result (Inr v) = (\<not> truthy v)"
| "falsy_result (Inl t) = False"

fun truthy_result :: "thrown + jsval \<Rightarrow> bool" where
  "truthy_result (Inr v) = truthy v"
| "truthy_result (Inl t) = False"

fun is_GetAuthorizationCode :: "call \<Rightarrow> bool" where
  "is_GetAuthorizationCode (GetAuthorizationCode c) = True"
| "is_GetAuthorizationCode c = False"

fun is_RevokeAuthorizationCode :: "call \<Rightarrow> bool" where
  "is_RevokeAuthorizationCode (RevokeAuthorizationCode c) = True"
| "is_RevokeAuthorizationCode c = False"

definition code_lookup_failed :: "event list \<Rightarrow> bool" where
  "code_lookup_failed cs =
     (\<exists>e \<in> set cs. is_GetAuthorizationCode (fst e) \<and> falsy_result (snd e))"

definition code_revocation_failed :: "event list \<Rightarrow> bool" where
  "code_revocation_failed cs =
     (\<exists>e \<in> set cs. is_RevokeAuthorizationCode (fst e) \<and> falsy_result (snd e))"

text \<open>
  Every call of \<open>saveToken\<close> in the log comes after a call of \<open>revokeAuthorizationCode\<close>
  that returned a truthy status.
\<close>

definition revocation_precedes_save :: "event list \<Rightarrow> bool" where
  "revocation_precedes_save cs =
     (\<forall>pre sv post. cs = pre @ sv # post \<and> is_SaveToken (fst sv) \<longrightarrow>
        (\<exists>e \<in> set pre. is_RevokeAuthorizationCode (fst e) \<and> truthy_result (snd e)))"

definition invalid_grant :: "thrown + 'a \<Rightarrow> bool" where
  "invalid_grant r = (\<exists>e. r = Inl (OAuth e) \<and> name e = ''invalid_grant'' \<and> code e = 400)"

text \<open>
  The calls a grant makes while it assembles and saves a token, and a computation that
  only appends events of one kind to the log.
\<close>

fun is_auxiliary :: "call \<Rightarrow> bool" where
  "is_auxiliary (ValidateScope u c s) = True"
| "is_auxiliary GenerateAccessToken = True"
| "is_auxiliary GenerateRefreshToken = True"
| "is_auxiliary (SaveToken t c u) = True"
| "is_auxiliary c = False"

definition only :: "(event \<Rightarrow> bool) \<Rightarrow> ('e, 'a) io \<Rightarrow> bool" where
  "only p m = (\<forall>w r w'. m w = (r, w') \<longrightarrow> (\<exists>cs. calls w' = calls w @ cs \<and> list_all p cs))"

text \<open>An own property of an object, when it has one of that name.\<close>

fun own_property :: "jsval \<Rightarrow> string \<Rightarrow> jsval option" where
  "own_property (JObj kvs) k = map_of kvs k"
| "own_property v k = None"

text \<open>The tokens passed to \<open>saveToken\<close>, in the order of the calls.\<close>

fun saved_tokens :: "event list \<Rightarrow> jsval list" where
  "saved_tokens [] = []"
| "saved_tokens ((SaveToken t c u, r) # es) = t # saved_tokens es"
| "saved_tokens (e # es) = saved_tokens es"

fun is_GetClient :: "call \<Rightarrow> bool" where
  "is_GetClient (GetClient clientId clientSecret) = True"
| "is_GetClient c = False"

definition client_lookup_failed :: "event list \<Rightarrow> bool" where
  "client_lookup_failed cs = (\<exists>e \<in> set cs. is_GetClient (fst e) \<and> falsy_result (snd e))"

fun is_RevokeToken :: "call \<Rightarrow> bool" where
  "is_RevokeToken (RevokeToken t) = True"
| "is_RevokeToken c = False"

definition token_revoked :: "event list \<Rightarrow> bool" where
  "token_revoked cs = (\<exists>e \<in> set cs. is_RevokeToken (fst e))"

definition token_revocation_failed :: "event list \<Rightarrow> bool" where
  "token_revocation_failed cs =
     (\<exists>e \<in> set cs. is_RevokeToken (fst e) \<and> falsy_result (snd e))"


text \<open>The refresh tokens that \<open>getRefreshToken\<close> returned, in the order of the calls.\<close>

fun found_refresh_tokens :: "event list \<Rightarrow> jsval list" where
  "found_refresh_tokens [] = []"
| "found_refresh_tokens ((GetRefreshToken x, Inr tok) # es) = tok # found_refresh_tokens es"
| "found_refresh_tokens (e # es) = found_refresh_tokens es"




section \<open>Lemmas on computations and the call log\<close>

lemmas io_defs = ret_def throw_def raise_def bind_def settled_def await_def invoke_def
  new_Date_def random_token_def catch_def modify_response_def

lemma only_ret: "only p (ret x)"
  by (simp add: only_def ret_def)

lemma only_throw: "only p (throw x)"
  by (simp add: only_def throw_def)

lemma only_raise: "only p (raise x)"
  by (simp add: only_def raise_def)

lemma only_await: "only p (await x)"
  by (simp add: only_def await_def raise_def ret_def split: sum.splits)

lemma only_new_Date: "only p (new_Date pf)"
  by (auto simp add: only_def new_Date_def split: prod.splits)

lemma only_random_token: "only p (random_token pf)"
  by (auto simp add: only_def random_token_def split: prod.splits)

lemma only_invoke: "(\<And>r. p (c, r)) \<Longrightarrow> only p (invoke c f)"
  by (auto simp add: only_def invoke_def split: prod.splits option.splits)

lemma only_bind: "only p m \<Longrightarrow> (\<And>x. only p (f x)) \<Longrightarrow> only p (bind m f)"
  unfolding only_def bind_def
  by (clarsimp split: prod.splits sum.splits) fastforce

lemma only_settled: "only p m \<Longrightarrow> only p (settled m)"
  unfolding only_def settled_def by (auto split: prod.splits)

lemma only_if: "only p a \<Longrightarrow> only p b \<Longrightarrow> only p (if c then a else b)"
  by simp

lemmas only_intros = only_ret only_throw only_raise only_await only_new_Date
  only_random_token only_bind only_settled only_if

lemma only_validateScope:
  "(\<And>r. p (ValidateScope user client scope, r)) \<Longrightarrow> only p (validateScope g user client scope)"
  unfolding validateScope_def
  by (auto split: option.splits intro!: only_intros only_invoke)

lemma only_generateAccessToken:
  "(\<And>r. p (GenerateAccessToken, r)) \<Longrightarrow> only p (generateAccessToken pf g client user scope)"
  unfolding generateAccessToken_def
  by (auto split: option.splits intro!: only_intros only_invoke)

lemma only_generateRefreshToken:
  "(\<And>r. p (GenerateRefreshToken, r)) \<Longrightarrow> only p (generateRefreshToken pf g client user scope)"
  unfolding generateRefreshToken_def
  by (auto split: option.splits intro!: only_intros only_invoke)

lemma only_getAccessTokenExpiresAt: "only p (getAccessTokenExpiresAt pf g)"
  unfolding getAccessTokenExpiresAt_def by (intro only_intros)

lemma only_getRefreshTokenExpiresAt: "only p (getRefreshTokenExpiresAt pf g)"
  unfolding getRefreshTokenExpiresAt_def by (intro only_intros)

lemmas only_helpers = only_validateScope only_generateAccessToken only_generateRefreshToken
  only_getAccessTokenExpiresAt only_getRefreshTokenExpiresAt

lemma onlyD:
  "only p m \<Longrightarrow> m w = (r, w') \<Longrightarrow> \<exists>cs. calls w' = calls w @ cs \<and> (\<forall>e \<in> set cs. p e)"
  unfolding only_def by (simp add: list_all_iff)

lemma prefix_before:
  "xs @ ys = pre @ x # post \<Longrightarrow> x \<notin> set xs \<Longrightarrow> set xs \<subseteq> set pre"
  by (induction xs arbitrary: pre) (auto simp: Cons_eq_append_conv)

lemma token_saved_append [simp]:
  "token_saved (xs @ ys) = (token_saved xs \<or> token_saved ys)"
  by (auto simp: token_saved_def)

section \<open>Successful runs of the token handler\<close>

lemma getClient_catch_throws: "getClient_catch request t w \<noteq> (Inr x, w')"
  by (simp add: getClient_catch_def bind_def modify_response_def throw_def raise_def)

lemma TokenHandler_catch_throws: "TokenHandler_catch t w \<noteq> (Inr x, w')"
  by (simp add: TokenHandler_catch_def bind_def modify_response_def throw_def)

lemma TokenHandler_handle_success:
  assumes "TokenHandler_handle pf h request w = (Inr data, w')"
  shows "\<exists>client w1 w2 tm w3.
           TokenHandler_getClient pf h request w = (Inr client, w1)
         \<and> handleGrantType pf h request client w1 = (Inr data, w2)
         \<and> TokenModel_new pf data (th_allowExtendedTokenAttributes h) w2 = (Inr tm, w3)
         \<and> env w' = env w3 \<and> calls w' = calls w3
         \<and> rbody (response w') = BearerTokenType_valueOf (getTokenType tm)"
proof -
  from assms have c: "catch (TokenHandler_try pf h request) TokenHandler_catch w = (Inr data, w')"
    by (simp add: TokenHandler_handle_def throw_def split: if_splits)
  obtain r wt where t: "TokenHandler_try pf h request w = (r, wt)"
    by (cases "TokenHandler_try pf h request w")
  from c t have r: "r = Inr data" and wt: "wt = w'"
    by (cases r; simp add: catch_def TokenHandler_catch_throws)+
  obtain r1 w1 where g: "TokenHandler_getClient pf h request w = (r1, w1)"
    by (cases "TokenHandler_getClient pf h request w")
  from t r g obtain client where r1: "r1 = Inr client"
    by (cases r1) (simp_all add: TokenHandler_try_def bind_def)
  obtain r2 w2 where d: "handleGrantType pf h request client w1 = (r2, w2)"
    by (cases "handleGrantType pf h request client w1")
  from t r g r1 d obtain data' where r2: "r2 = Inr data'"
    by (cases r2) (simp_all add: TokenHandler_try_def bind_def)
  obtain r3 w3 where m: "TokenModel_new pf data' (th_allowExtendedTokenAttributes h) w2 = (r3, w3)"
    by (cases "TokenModel_new pf data' (th_allowExtendedTokenAttributes h) w2")
  from t r g r1 d r2 m obtain tm where r3: "r3 = Inr tm"
    by (cases r3) (simp_all add: TokenHandler_try_def bind_def)
  from t r wt g r1 d r2 m r3
  have "data' = data
      \<and> w' = w3\<lparr>response := updateSuccessResponse (getTokenType tm) (response w3)\<rparr>"
    by (auto simp: TokenHandler_try_def bind_def modify_response_def ret_def)
  with g r1 d r2 m r3 show ?thesis
    by (auto simp: updateSuccessResponse_def response_set_def)
qed

lemma map_of_filter_key:
  "map_of (filter (\<lambda>(k, v). P k) kvs) k = (if P k then map_of kvs k else None)"
  by (induction kvs) auto




lemma valueOf_extended_key:
  "k \<notin> {''access_token'', ''token_type'', ''expires_in'', ''refresh_token'', ''scope''} \<Longrightarrow>
   own_property (BearerTokenType_valueOf t) k
     = (case bt_customAttributes t of Some kvs \<Rightarrow> map_of kvs k | None \<Rightarrow> None)"
  by (auto simp: BearerTokenType_valueOf_def map_add_def map_of_filter_key token_fields_def
      split: option.splits)

lemma TokenModel_new_success:
  assumes "TokenModel_new pf data allow w = (Inr tm, w')"
  shows "(\<exists>kvs. data = JObj kvs
            \<and> tm_customAttributes tm
                = (if truthy allow
                   then Some (filter (\<lambda>(key, v). indexOf modelAttributes key < 0) kvs)
                   else None))
       \<and> (\<forall>x. getprop data ''accessTokenExpiresAt'' = JDate x \<longrightarrow>
            tm_accessTokenLifetime tm = Some ((x - fst (now pf (env w))) div 1000))
       \<and> (\<not> truthy (getprop data ''accessTokenExpiresAt'') \<longrightarrow>
            tm_accessTokenLifetime tm = None \<and> w' = w)
       \<and> (truthy (getprop data ''accessTokenExpiresAt'') \<longrightarrow>
            instanceof_Date (getprop data ''accessTokenExpiresAt''))"
  using assms unfolding TokenModel_new_def Let_def
  by (cases data)
     (auto simp: bind_def ret_def throw_def raise_def new_Date_def
        split: if_splits jsval.splits prod.splits)

lemma bind_success:
  assumes "bind m f w = (Inr y, w')"
  obtains x w1 where "m w = (Inr x, w1)" and "f x w1 = (Inr y, w')"
proof -
  obtain r w1 where m: "m w = (r, w1)" by (cases "m w")
  with assms obtain x where "r = Inr x" by (cases r) (simp_all add: bind_def)
  with assms m that show ?thesis by (simp add: bind_def)
qed

lemma invoke_success:
  "invoke c f w = (Inr d, w') \<Longrightarrow> calls w' = calls w @ [(c, Inr d)]"
  by (auto simp: invoke_def split: option.splits prod.splits)

lemma saved_tokens_set:
  "t \<in> set (saved_tokens cs) \<longleftrightarrow> (\<exists>c u r. (SaveToken t c u, r) \<in> set cs)"
  by (induction cs rule: saved_tokens.induct) auto

lemma only_catch: "only p m \<Longrightarrow> (\<And>e. only p (f e)) \<Longrightarrow> only p (catch m f)"
  unfolding only_def catch_def
  by (clarsimp split: prod.splits sum.splits) fastforce

lemma only_modify_response: "only p (modify_response f)"
  by (simp add: only_def modify_response_def)

lemma only_getClientCredentials: "only p (getClientCredentials pf h request)"
  unfolding getClientCredentials_def
  by (auto simp: only_def ret_def throw_def split: option.splits if_splits prod.splits)

lemma only_TokenHandler_getClient:
  "(\<And>a b r. p (GetClient a b, r)) \<Longrightarrow> only p (TokenHandler_getClient pf h request)"
  unfolding TokenHandler_getClient_def getClient_try_def getClient_catch_def
  by (intro only_intros only_catch only_modify_response only_getClientCredentials only_invoke
        allI)
     (auto intro!: only_intros only_catch only_modify_response only_invoke)

lemma only_TokenModel_new: "only p (TokenModel_new pf data allow)"
  unfolding TokenModel_new_def Let_def
  by (intro only_intros) (auto intro!: only_intros split: jsval.splits)

lemma TokenModel_new_calls:
  "TokenModel_new pf data allow w = (r, w') \<Longrightarrow> calls w' = calls w"
proof -
  assume "TokenModel_new pf data allow w = (r, w')"
  from onlyD [OF only_TokenModel_new this, of "\<lambda>e. False"]
  obtain cs where "calls w' = calls w @ cs" and "\<forall>e \<in> set cs. False" by blast
  then show ?thesis by (cases cs) auto
qed

section \<open>The authorization code is revoked before a token is saved\<close>

lemmas trace_defs = token_saved_def code_lookup_failed_def code_revocation_failed_def

lemma no_save_precedes: "\<not> token_saved cs \<Longrightarrow> revocation_precedes_save cs"
  unfolding token_saved_def revocation_precedes_save_def by auto

lemma code_lookup_failed_append [simp]:
  "code_lookup_failed (xs @ ys) = (code_lookup_failed xs \<or> code_lookup_failed ys)"
  by (auto simp: code_lookup_failed_def)

lemma code_revocation_failed_append [simp]:
  "code_revocation_failed (xs @ ys) = (code_revocation_failed xs \<or> code_revocation_failed ys)"
  by (auto simp: code_revocation_failed_def)

lemma auxiliary_is_other:
  "is_auxiliary c \<Longrightarrow> \<not> is_GetAuthorizationCode c \<and> \<not> is_RevokeAuthorizationCode c"
  by (cases c) simp_all

lemma auxiliary_not_failed:
  assumes "\<And>e. e \<in> set cs \<Longrightarrow> is_auxiliary (fst e)"
  shows "\<not> code_lookup_failed cs" and "\<not> code_revocation_failed cs"
  using assms auxiliary_is_other
  unfolding code_lookup_failed_def code_revocation_failed_def by blast+

lemma only_AuthorizationCodeGrantType_saveToken:
  "only (\<lambda>e. is_auxiliary (fst e))
     (AuthorizationCodeGrantType_saveToken pf g user client ac scope)"
  unfolding AuthorizationCodeGrantType_saveToken_def Let_def
  by (intro only_intros only_helpers only_invoke) simp_all

lemma getAuthorizationCode_calls:
  "AuthorizationCodeGrantType_getAuthorizationCode pf g request client w = (r, w') \<Longrightarrow>
   \<exists>cs. calls w' = calls w @ cs \<and> \<not> token_saved cs \<and> \<not> code_revocation_failed cs
      \<and> (code_lookup_failed cs \<longrightarrow> invalid_grant r)"
  unfolding AuthorizationCodeGrantType_getAuthorizationCode_def io_defs invalid_grant_def
    trace_defs
  by (auto simp: InvalidGrantException_def
      split: if_splits option.splits prod.splits sum.splits jsval.splits)

lemma validateRedirectUri_world:
  "AuthorizationCodeGrantType_validateRedirectUri pf request acode w = (r, w') \<Longrightarrow> w' = w"
  unfolding AuthorizationCodeGrantType_validateRedirectUri_def io_defs Let_def
  by (auto split: if_splits)

lemma revokeAuthorizationCode_calls:
  "AuthorizationCodeGrantType_revokeAuthorizationCode g acode w = (r, w') \<Longrightarrow>
   \<exists>cs. calls w' = calls w @ cs \<and> \<not> token_saved cs \<and> \<not> code_lookup_failed cs
      \<and> (code_revocation_failed cs \<longrightarrow> invalid_grant r)
      \<and> (\<forall>x. r = Inr x \<longrightarrow>
            (\<exists>st. cs = [(RevokeAuthorizationCode acode, Inr st)] \<and> truthy st))"
  unfolding AuthorizationCodeGrantType_revokeAuthorizationCode_def io_defs invalid_grant_def
    trace_defs
  by (auto simp: InvalidGrantException_def split: if_splits option.splits prod.splits sum.splits)

lemma stopped_before_save:
  assumes "calls w' = calls w @ cs" and "\<not> token_saved cs"
    and "code_lookup_failed cs \<or> code_revocation_failed cs \<Longrightarrow> invalid_grant r"
  shows "\<exists>cs. calls w' = calls w @ cs \<and> revocation_precedes_save cs
    \<and> (code_lookup_failed cs \<or> code_revocation_failed cs
         \<longrightarrow> invalid_grant r \<and> \<not> token_saved cs)"
  using assms no_save_precedes by blast

text \<open>
  C1. Whatever the model does, in a run of the \<open>authorization_code\<close> grant every call of
  \<open>model.saveToken\<close> comes after a call of \<open>model.revokeAuthorizationCode\<close> that returned
  a truthy status; and if \<open>model.getAuthorizationCode\<close> returned a falsy value (such as
  \<open>null\<close>, as on a second exchange of a code) or \<open>model.revokeAuthorizationCode\<close> returned
  a falsy status, the grant throws \<open>invalid_grant\<close> and \<open>model.saveToken\<close> is not called.
\<close>

theorem authorization_code_revoked_before_save:
  assumes run: "AuthorizationCodeGrantType_handle pf g request client w = (r, w')"
  shows "\<exists>cs. calls w' = calls w @ cs \<and> revocation_precedes_save cs
    \<and> (code_lookup_failed cs \<or> code_revocation_failed cs
         \<longrightarrow> invalid_grant r \<and> \<not> token_saved cs)"
proof (cases "truthy client")
  case False
  with run have "calls w' = calls w @ []"
    by (auto simp add: AuthorizationCodeGrantType_handle_def throw_def)
  then show ?thesis by (rule stopped_before_save) (simp_all add: trace_defs)
next
  case True
  obtain r1 w1 where s1:
    "AuthorizationCodeGrantType_getAuthorizationCode pf g request client w = (r1, w1)"
    by (cases "AuthorizationCodeGrantType_getAuthorizationCode pf g request client w")
  from getAuthorizationCode_calls [OF s1] obtain cs1 where c1: "calls w1 = calls w @ cs1"
    "\<not> token_saved cs1" "\<not> code_revocation_failed cs1"
    "code_lookup_failed cs1 \<longrightarrow> invalid_grant r1"
    by blast
  show ?thesis
  proof (cases r1)
    case (Inl t)
    with run True s1 have "r = r1" "w' = w1"
      by (simp_all add: AuthorizationCodeGrantType_handle_def bind_def)
    with c1 show ?thesis by (intro stopped_before_save [of _ _ cs1]) simp_all
  next
    case (Inr acode)
    with c1(4) have ok1: "\<not> code_lookup_failed cs1" by (auto simp: invalid_grant_def)
    obtain r2 w2 where s2:
      "AuthorizationCodeGrantType_validateRedirectUri pf request acode w1 = (r2, w2)"
      by (cases "AuthorizationCodeGrantType_validateRedirectUri pf request acode w1")
    have w2: "w2 = w1" using validateRedirectUri_world [OF s2] .
    show ?thesis
    proof (cases r2)
      case (Inl t)
      with run True s1 s2 Inr have "r = Inl t" "w' = w1"
        by (simp_all add: AuthorizationCodeGrantType_handle_def bind_def w2)
      with c1 ok1 show ?thesis by (intro stopped_before_save [of _ _ cs1]) simp_all
    next
      case u: (Inr u)
      obtain r3 w3 where s3:
        "AuthorizationCodeGrantType_revokeAuthorizationCode g acode w1 = (r3, w3)"
        by (cases "AuthorizationCodeGrantType_revokeAuthorizationCode g acode w1")
      from revokeAuthorizationCode_calls [OF s3] obtain cs3 where c3:
        "calls w3 = calls w1 @ cs3" "\<not> token_saved cs3" "\<not> code_lookup_failed cs3"
        "code_revocation_failed cs3 \<longrightarrow> invalid_grant r3"
        "\<forall>x. r3 = Inr x \<longrightarrow>
           (\<exists>st. cs3 = [(RevokeAuthorizationCode acode, Inr st)] \<and> truthy st)"
        by (elim exE conjE) (rule that)
      show ?thesis
      proof (cases r3)
        case (Inl t)
        with run True s1 s2 s3 Inr u have rw: "r = r3" "w' = w3"
          by (simp_all add: AuthorizationCodeGrantType_handle_def bind_def w2)
        have "calls w' = calls w @ (cs1 @ cs3)" using c1(1) c3(1) rw by simp
        then show ?thesis
          using c1 c3 ok1 rw
          by (intro stopped_before_save [of _ _ "cs1 @ cs3"]) simp_all
      next
        case ok: (Inr x)
        with c3(5) obtain st where st:
          "cs3 = [(RevokeAuthorizationCode acode, Inr st)]" "truthy st"
          by blast
        from run True s1 s2 s3 Inr u ok
        have s4: "AuthorizationCodeGrantType_saveToken pf g (getprop acode ''user'') client
                (getprop acode ''authorizationCode'') (getprop acode ''scope'') w3 = (r, w')"
          by (simp add: AuthorizationCodeGrantType_handle_def bind_def w2)
        from onlyD [OF only_AuthorizationCodeGrantType_saveToken s4]
        obtain cs4 where cs4: "calls w' = calls w3 @ cs4"
          and aux: "\<And>e. e \<in> set cs4 \<Longrightarrow> is_auxiliary (fst e)"
          by blast
        have all: "calls w' = calls w @ ((cs1 @ cs3) @ cs4)"
          using cs4 c3(1) c1(1) by simp
        have A: "revocation_precedes_save ((cs1 @ cs3) @ cs4)"
          unfolding revocation_precedes_save_def
        proof (intro allI impI, elim conjE)
          fix pre sv post
          assume eq: "(cs1 @ cs3) @ cs4 = pre @ sv # post" and sv: "is_SaveToken (fst sv)"
          have "\<not> token_saved (cs1 @ cs3)" using c1(2) c3(2) by simp
          with sv have "sv \<notin> set (cs1 @ cs3)" unfolding token_saved_def by blast
          from prefix_before [OF eq this] st
          have "(RevokeAuthorizationCode acode, Inr st) \<in> set pre" by auto
          with st(2)
          show "\<exists>e \<in> set pre. is_RevokeAuthorizationCode (fst e) \<and> truthy_result (snd e)"
            by (intro bexI [of _ "(RevokeAuthorizationCode acode, Inr st)"]) simp_all
        qed
        have "\<not> code_lookup_failed cs3" "\<not> code_revocation_failed cs3"
          using st by (simp_all add: trace_defs)
        with ok1 c1(3) auxiliary_not_failed [of cs4, OF aux]
        have B: "\<not> code_lookup_failed ((cs1 @ cs3) @ cs4)"
          "\<not> code_revocation_failed ((cs1 @ cs3) @ cs4)"
          by simp_all
        show ?thesis
          using all A B by blast
      qed
    qed
  qed
qed

theorem authorization_code_revoked_before_save_witness:
  "token_saved (calls (snd first_exchange))
   \<and> revocation_precedes_save (calls (snd first_exchange))
   \<and> code_lookup_failed (calls (snd second_exchange))
   \<and> invalid_grant (fst second_exchange)
   \<and> \<not> token_saved (calls (snd second_exchange))
   \<and> code_revocation_failed (calls (snd refused_exchange))
   \<and> invalid_grant (fst refused_exchange)
   \<and> \<not> token_saved (calls (snd refused_exchange))"
proof -
  have r1: "AuthorizationCodeGrantType_handle demo_platform (demo_grant JUndefined)
      code_request demo_client (demo_world [JStr ''abc''])
      = (fst first_exchange, snd first_exchange)"
    by (simp add: first_exchange_def)
  have r2: "AuthorizationCodeGrantType_handle demo_platform (demo_grant JUndefined)
      code_request demo_client ((snd first_exchange)\<lparr>calls := []\<rparr>)
      = (fst second_exchange, snd second_exchange)"
    by (simp add: second_exchange_def)
  have r3: "AuthorizationCodeGrantType_handle demo_platform
       ((demo_grant JUndefined)\<lparr>model := demo_model
           \<lparr>m_revokeAuthorizationCode := Some (\<lambda>acode e. (Inr (JBool False), e))\<rparr>\<rparr>)
       code_request demo_client (demo_world [JStr ''abc''])
      = (fst refused_exchange, snd refused_exchange)"
    by (simp add: refused_exchange_def)
  have s1: "token_saved (calls (snd first_exchange))" by code_simp
  have s2: "code_lookup_failed (calls (snd second_exchange))" by code_simp
  have s3: "code_revocation_failed (calls (snd refused_exchange))" by code_simp
  have e1: "calls (demo_world [JStr ''abc'']) = []"
    by (simp add: demo_world_def)
  from authorization_code_revoked_before_save [OF r1]
  have p1: "revocation_precedes_save (calls (snd first_exchange))"
    unfolding e1 by (elim exE conjE) simp
  from authorization_code_revoked_before_save [OF r2] s2
  have p2: "invalid_grant (fst second_exchange) \<and> \<not> token_saved (calls (snd second_exchange))"
    by (elim exE conjE) simp
  from authorization_code_revoked_before_save [OF r3] s3
  have p3: "invalid_grant (fst refused_exchange) \<and> \<not> token_saved (calls (snd refused_exchange))"
    unfolding e1 by (elim exE conjE) simp
  from s1 s2 s3 p1 p2 p3 show ?thesis by simp
qed

section \<open>A denied authorize request\<close>

text \<open>
  C3, as amended. When the query of an authorize request has \<open>allowed\<close> equal to
  \<open>"false"\<close>, \<open>AuthorizeHandler.handle\<close> throws \<open>access_denied\<close> (code 400) before
  the client and the redirect URI are resolved: the model is not called and the response
  is left as it was, so there is no redirect.
\<close>

theorem authorize_denied_is_thrown_before_any_redirect:
  assumes "fld (query request) ''allowed'' = JStr ''false''"
  shows "AuthorizeHandler_handle pf h request w
     = (Inl (OAuth (AccessDeniedException
          ''Access denied: user denied access to application'')), w)"
  using assms by (simp add: AuthorizeHandler_handle_def throw_def)

theorem authorize_denied_is_thrown_before_any_redirect_witness:
  "fld (query (authorize_request [(''allowed'', ''false'')])) ''allowed'' = JStr ''false''
   \<and> denied_authorize
     = (Inl (OAuth \<lparr>name = ''access_denied'',
                    message = ''Access denied: user denied access to application'',
                    code = 400\<rparr>), demo_world [])"
proof -
  have a: "fld (query (authorize_request [(''allowed'', ''false'')])) ''allowed'' = JStr ''false''"
    by (simp add: authorize_request_def fld_def)
  from authorize_denied_is_thrown_before_any_redirect
    [OF a, of demo_platform demo_authorize_handler "demo_world []"] a
  show ?thesis by (simp add: denied_authorize_def AccessDeniedException_def)
qed

text \<open>
  C3, as stated, fails on scenario S5: the request is denied with \<open>access_denied\<close>, and
  the response is not a 302 and has no \<open>Location\<close>.
\<close>

theorem authorize_denied_counterexample:
  "fst denied_authorize
     = Inl (OAuth (AccessDeniedException ''Access denied: user denied access to application''))
   \<and> status (response (snd denied_authorize)) \<noteq> 302
   \<and> response_get (response (snd denied_authorize)) ''Location'' = None
   \<and> calls (snd denied_authorize) = []"
  by code_simp

section \<open>The failure surface of the token handler\<close>

text \<open>
  C4, as amended. A request that is not a \<open>POST\<close> or not form-urlencoded makes
  \<open>TokenHandler.handle\<close> throw \<open>invalid_request\<close> before its \<open>try\<close> statement: the
  response is left as it was. Every failure of the \<open>try\<close> block is rethrown as an
  exception of the taxonomy, a thrown value that is not one being wrapped as
  \<open>server_error\<close> (code 503) with its message; the response body is set to
  \<open>{ error: name, error_description: message }\<close> and the response status to the code
  of that exception.
\<close>

theorem token_handler_failure_surface:
  "(request_method request \<noteq> ''POST''
      \<or> \<not> request_is pf request ''application/x-www-form-urlencoded'' \<longrightarrow>
      (\<exists>msg. TokenHandler_handle pf h request w
                = (Inl (OAuth (InvalidRequestException msg)), w)))
   \<and> (request_method request = ''POST''
        \<and> request_is pf request ''application/x-www-form-urlencoded''
        \<and> TokenHandler_try pf h request w = (Inl t, w1) \<longrightarrow>
        TokenHandler_handle pf h request w
          = (Inl (OAuth (wrap_ServerException t)),
             w1\<lparr>response := (response w1)
                  \<lparr>rbody := JObj [(''error'', JStr (name (wrap_ServerException t))),
                        (''error_description'', JStr (message (wrap_ServerException t)))],
                   status := code (wrap_ServerException t)\<rparr>\<rparr>)
        \<and> (\<forall>e. t = OAuth e \<longrightarrow> wrap_ServerException t = e)
        \<and> (\<not> instanceof_OAuthException t \<longrightarrow>
              name (wrap_ServerException t) = ''server_error''
              \<and> code (wrap_ServerException t) = 503
              \<and> message (wrap_ServerException t) = thrown_message t))"
  unfolding TokenHandler_handle_def TokenHandler_catch_def
  by (cases t)
     (auto simp: catch_def bind_def throw_def modify_response_def updateErrorResponse_def
        ServerException_def)

theorem token_handler_failure_surface_witness:
  "TokenHandler_handle demo_platform (demo_handler [] (JBool False)) get_token_request
       (demo_world [])
     = (Inl (OAuth (InvalidRequestException ''Invalid request: method must be POST'')),
        demo_world [])
   \<and> fst (TokenHandler_handle demo_platform broken_handler password_request (demo_world []))
       = Inl (OAuth \<lparr>name = ''server_error'', message = ''connection lost'', code = 503\<rparr>)
   \<and> response (snd (TokenHandler_handle demo_platform broken_handler password_request
        (demo_world [])))
       = \<lparr>status = 503,
          rbody = JObj [(''error'', JStr ''server_error''),
                        (''error_description'', JStr ''connection lost'')],
          rheaders = []\<rparr>"
proof -
  have g: "request_method get_token_request \<noteq> ''POST''"
    by (simp add: get_token_request_def)
  have p: "request_method password_request = ''POST''
      \<and> request_is demo_platform password_request ''application/x-www-form-urlencoded''"
    by (simp add: password_request_def grant_request_def form_request_def demo_platform_def)
  have t: "TokenHandler_try demo_platform broken_handler password_request (demo_world [])
     = (Inl (Foreign ''connection lost''),
        (demo_world [])\<lparr>calls := [(GetClient (JStr ''c1'') (JStr ''s1''),
                                     Inl (Foreign ''connection lost''))]\<rparr>)"
    by code_simp
  have a: "TokenHandler_handle demo_platform (demo_handler [] (JBool False)) get_token_request
       (demo_world [])
     = (Inl (OAuth (InvalidRequestException ''Invalid request: method must be POST'')),
        demo_world [])"
    by code_simp
  from token_handler_failure_surface
    [where request = password_request and pf = demo_platform and h = broken_handler
       and w = "demo_world []" and t = "Foreign ''connection lost''"
       and ?w1.0 = "(demo_world [])\<lparr>calls := [(GetClient (JStr ''c1'') (JStr ''s1''),
                                     Inl (Foreign ''connection lost''))]\<rparr>"] p t
  have b: "TokenHandler_handle demo_platform broken_handler password_request (demo_world [])
     = (Inl (OAuth (wrap_ServerException (Foreign ''connection lost''))),
        (demo_world [])\<lparr>calls := [(GetClient (JStr ''c1'') (JStr ''s1''),
                                     Inl (Foreign ''connection lost''))],
           response := (response (demo_world []))
             \<lparr>rbody := JObj [(''error'', JStr (name (wrap_ServerException (Foreign ''connection lost'')))),
                   (''error_description'', JStr (message (wrap_ServerException (Foreign ''connection lost''))))],
              status := code (wrap_ServerException (Foreign ''connection lost''))\<rparr>\<rparr>)"
    by simp
  from token_handler_failure_surface
    [where request = get_token_request and pf = demo_platform
       and h = "demo_handler [] (JBool False)" and w = "demo_world []"] g
  obtain msg where "TokenHandler_handle demo_platform (demo_handler [] (JBool False))
       get_token_request (demo_world []) = (Inl (OAuth (InvalidRequestException msg)), demo_world [])"
    by blast
  with a b show ?thesis
    by (simp add: ServerException_def demo_world_def demo_response_def)
qed

text \<open>
  C4, as stated, fails on a token request sent with \<open>GET\<close>: the handler throws
  \<open>invalid_request\<close>, and the response has neither that error body nor status 400.
\<close>

theorem token_handler_precondition_counterexample:
  "fst (TokenHandler_handle demo_platform (demo_handler [] (JBool False)) get_token_request
         (demo_world []))
     = Inl (OAuth \<lparr>name = ''invalid_request'',
                   message = ''Invalid request: method must be POST'', code = 400\<rparr>)
   \<and> rbody (response (snd (TokenHandler_handle demo_platform (demo_handler [] (JBool False))
         get_token_request (demo_world []))))
       \<noteq> JObj [(''error'', JStr ''invalid_request''),
               (''error_description'', JStr ''Invalid request: method must be POST'')]
   \<and> status (response (snd (TokenHandler_handle demo_platform (demo_handler [] (JBool False))
         get_token_request (demo_world [])))) \<noteq> 400"
  by code_simp

section \<open>A failed client lookup\<close>

lemma client_lookup_failed_simps [simp]:
  "\<not> client_lookup_failed []"
  "client_lookup_failed [(c, res)] = (is_GetClient c \<and> falsy_result res)"
  by (simp_all add: client_lookup_failed_def)

lemma getClientCredentials_world:
  "getClientCredentials pf h request w = (r, w') \<Longrightarrow> w' = w"
  unfolding getClientCredentials_def
  by (auto simp: ret_def throw_def split: option.splits if_splits prod.splits)

lemma getClient_try_cases:
  assumes "getClient_try h a b w = (r, w')"
  shows "response w' = response w
     \<and> (calls w' = calls w
         \<or> (\<exists>res. calls w' = calls w @ [(GetClient a b, res)]
               \<and> (falsy_result res \<longrightarrow>
                    r = Inl (OAuth (InvalidClientException
                          ''Invalid client: client is invalid'')))))"
proof (cases "m_getClient (th_model h)")
  case None
  with assms show ?thesis
    by (simp add: getClient_try_def bind_def invoke_def)
next
  case (Some f)
  obtain res e' where f: "f a b (env w) = (res, e')" by (cases "f a b (env w)")
  show ?thesis
  proof (cases res)
    case (Inl t)
    with assms Some f show ?thesis
      by (auto simp add: getClient_try_def bind_def invoke_def)
  next
    case (Inr v)
    with assms Some f show ?thesis
      by (auto simp add: getClient_try_def bind_def invoke_def throw_def ret_def
          split: if_splits)
  qed
qed

lemma getClient_catch_invalid_client:
  "getClient_catch request (OAuth (InvalidClientException m)) w
     = (if header_truthy (request_get request ''authorization'')
        then (Inl (OAuth ((InvalidClientException m)\<lparr>code := 401\<rparr>)),
              w\<lparr>response := response_set ''WWW-Authenticate'' www_authenticate_basic
                    (response w)\<rparr>)
        else (Inl (OAuth (InvalidClientException m)), w))"
  by (simp add: getClient_catch_def bind_def modify_response_def throw_def raise_def
      InvalidClientException_def)

lemma getClient_catch_calls:
  "getClient_catch request t w = (r, w') \<Longrightarrow> calls w' = calls w"
  by (auto simp: getClient_catch_def bind_def modify_response_def throw_def raise_def
      split: if_splits)

lemma handle_when_getClient_fails:
  assumes "TokenHandler_getClient pf h request w = (Inl t, w')"
    and "request_method request = ''POST''"
    and "request_is pf request ''application/x-www-form-urlencoded''"
  shows "TokenHandler_handle pf h request w
     = (Inl (OAuth (wrap_ServerException t)),
        w'\<lparr>response := updateErrorResponse (wrap_ServerException t) (response w')\<rparr>)"
  using assms
  by (simp add: TokenHandler_handle_def TokenHandler_try_def TokenHandler_catch_def
      catch_def bind_def modify_response_def throw_def)

lemma getClient_lookup_failed:
  assumes run: "TokenHandler_getClient pf h request w = (r, w')"
    and cs: "calls w' = calls w @ cs" and failed: "client_lookup_failed cs"
  shows "r = Inl (OAuth (if header_truthy (request_get request ''authorization'')
                then (InvalidClientException ''Invalid client: client is invalid'')
                       \<lparr>code := 401\<rparr>
                else InvalidClientException ''Invalid client: client is invalid''))
     \<and> response w' = (if header_truthy (request_get request ''authorization'')
                then response_set ''WWW-Authenticate'' www_authenticate_basic (response w)
                else response w)"
proof -
  obtain rc wc where creds: "getClientCredentials pf h request w = (rc, wc)"
    by (cases "getClientCredentials pf h request w")
  have wc: "wc = w" using getClientCredentials_world [OF creds] .
  from cs failed have changed: "calls w' \<noteq> calls w" by auto
  show ?thesis
  proof (cases rc)
    case (Inl t)
    with run creds wc have "w' = w"
      by (simp add: TokenHandler_getClient_def bind_def)
    with changed show ?thesis by simp
  next
    case (Inr ab)
    obtain a b where ab: "ab = (a, b)" by (cases ab)
    from run creds wc Inr ab changed
    have c: "catch (getClient_try h a b) (getClient_catch request) w = (r, w')"
      by (auto simp: TokenHandler_getClient_def bind_def throw_def split: if_splits)
    obtain r1 w1 where t: "getClient_try h a b w = (r1, w1)"
      by (cases "getClient_try h a b w")
    note t1 = getClient_try_cases [OF t]
    have same: "calls w' = calls w1"
      using c t getClient_catch_calls by (auto simp: catch_def split: sum.splits)
    with t1 changed cs failed
    have r1: "r1 = Inl (OAuth (InvalidClientException ''Invalid client: client is invalid''))"
      by auto
    from c t r1
    have "getClient_catch request
        (OAuth (InvalidClientException ''Invalid client: client is invalid'')) w1 = (r, w')"
      by (simp add: catch_def)
    with t1 show ?thesis
      by (auto simp: getClient_catch_invalid_client split: if_splits)
  qed
qed

text \<open>
  C5, as amended. When \<open>model.getClient\<close> returns a falsy value such as \<open>null\<close> and
  the request has a non-empty \<open>Authorization\<close> header, which it has whenever the
  client credentials were taken from that header, \<open>TokenHandler.getClient\<close> sets the
  response header \<open>WWW-Authenticate\<close> to \<open>Basic realm="Service"\<close> and throws
  \<open>invalid_client\<close> with code 401, and the handler answers with status 401. When the
  request has no \<open>Authorization\<close> header, the exception keeps its code 400, the handler
  answers with status 400, and no response header is set.
\<close>

theorem failed_client_lookup_with_authorization_header:
  assumes run: "TokenHandler_getClient pf h request w = (r, w')"
    and cs: "calls w' = calls w @ cs" and failed: "client_lookup_failed cs"
  shows "(auth pf request \<noteq> None \<and> basic_auth pf [] = None \<longrightarrow>
            header_truthy (request_get request ''authorization''))
     \<and> (header_truthy (request_get request ''authorization'') \<longrightarrow>
          r = Inl (OAuth ((InvalidClientException ''Invalid client: client is invalid'')
                           \<lparr>code := 401\<rparr>))
          \<and> response w' = response_set ''WWW-Authenticate'' www_authenticate_basic (response w))
     \<and> (\<not> header_truthy (request_get request ''authorization'') \<longrightarrow>
          r = Inl (OAuth (InvalidClientException ''Invalid client: client is invalid''))
          \<and> response w' = response w)
     \<and> (request_method request = ''POST''
          \<and> request_is pf request ''application/x-www-form-urlencoded'' \<longrightarrow>
          status (response (snd (TokenHandler_handle pf h request w)))
            = (if header_truthy (request_get request ''authorization'') then 401 else 400)
          \<and> rheaders (response (snd (TokenHandler_handle pf h request w)))
            = rheaders (response w'))"
proof (intro conjI impI)
  assume "auth pf request \<noteq> None \<and> basic_auth pf [] = None"
  then show "header_truthy (request_get request ''authorization'')"
    by (auto simp: auth_def header_truthy_def split: option.splits)
next
  assume "header_truthy (request_get request ''authorization'')"
  with getClient_lookup_failed [OF run cs failed]
  show "r = Inl (OAuth ((InvalidClientException ''Invalid client: client is invalid'')
                           \<lparr>code := 401\<rparr>))"
    and "response w' = response_set ''WWW-Authenticate'' www_authenticate_basic (response w)"
    by simp_all
next
  assume "\<not> header_truthy (request_get request ''authorization'')"
  with getClient_lookup_failed [OF run cs failed]
  show "r = Inl (OAuth (InvalidClientException ''Invalid client: client is invalid''))"
    and "response w' = response w"
    by simp_all
next
  assume post: "request_method request = ''POST''
          \<and> request_is pf request ''application/x-www-form-urlencoded''"
  define e where "e = (if header_truthy (request_get request ''authorization'')
                then (InvalidClientException ''Invalid client: client is invalid'')
                       \<lparr>code := 401\<rparr>
                else InvalidClientException ''Invalid client: client is invalid'')"
  have r: "r = Inl (OAuth e)"
    using getClient_lookup_failed [OF run cs failed] by (simp add: e_def)
  have c: "code e = (if header_truthy (request_get request ''authorization'') then 401 else 400)"
    by (simp add: e_def InvalidClientException_def)
  from handle_when_getClient_fails [OF run [unfolded r]] post
  have "TokenHandler_handle pf h request w
     = (Inl (OAuth e), w'\<lparr>response := updateErrorResponse e (response w')\<rparr>)"
    by simp
  with c
  show "status (response (snd (TokenHandler_handle pf h request w)))
            = (if header_truthy (request_get request ''authorization'') then 401 else 400)"
    and "rheaders (response (snd (TokenHandler_handle pf h request w)))
            = rheaders (response w')"
    by (simp_all add: updateErrorResponse_def)
qed

theorem failed_client_lookup_with_authorization_header_witness:
  "auth demo_platform basic_header_request = Some (''c9'', ''s9'')
   \<and> client_lookup_failed (calls (snd (TokenHandler_getClient demo_platform
        (demo_handler [] (JBool False)) basic_header_request (demo_world []))))
   \<and> fst (TokenHandler_getClient demo_platform (demo_handler [] (JBool False))
        basic_header_request (demo_world []))
       = Inl (OAuth \<lparr>name = ''invalid_client'',
                     message = ''Invalid client: client is invalid'', code = 401\<rparr>)
   \<and> response_get (response (snd (TokenHandler_handle demo_platform
        (demo_handler [] (JBool False)) basic_header_request (demo_world []))))
        ''WWW-Authenticate'' = Some www_authenticate_basic
   \<and> status (response (snd (TokenHandler_handle demo_platform
        (demo_handler [] (JBool False)) basic_header_request (demo_world [])))) = 401
   \<and> request_get body_only_request ''authorization'' = None
   \<and> client_lookup_failed (calls (snd (TokenHandler_getClient demo_platform
        (demo_handler [] (JBool False)) body_only_request (demo_world []))))
   \<and> fst (TokenHandler_getClient demo_platform (demo_handler [] (JBool False))
        body_only_request (demo_world []))
       = Inl (OAuth \<lparr>name = ''invalid_client'',
                     message = ''Invalid client: client is invalid'', code = 400\<rparr>)
   \<and> rheaders (response (snd (TokenHandler_handle demo_platform
        (demo_handler [] (JBool False)) body_only_request (demo_world [])))) = []
   \<and> status (response (snd (TokenHandler_handle demo_platform
        (demo_handler [] (JBool False)) body_only_request (demo_world [])))) = 400"
proof -
  let ?h = "demo_handler [] (JBool False)"
  let ?g1 = "TokenHandler_getClient demo_platform ?h basic_header_request (demo_world [])"
  let ?g2 = "TokenHandler_getClient demo_platform ?h body_only_request (demo_world [])"
  have e: "calls (demo_world []) = []" "response (demo_world []) = demo_response"
    by (simp_all add: demo_world_def)
  have a1: "auth demo_platform basic_header_request = Some (''c9'', ''s9'')" by code_simp
  have b0: "basic_auth demo_platform [] = None" by code_simp
  have f1: "client_lookup_failed (calls (snd ?g1))" by code_simp
  have f2: "client_lookup_failed (calls (snd ?g2))" by code_simp
  have n2: "request_get body_only_request ''authorization'' = None" by code_simp
  have p1: "request_method basic_header_request = ''POST''
      \<and> request_is demo_platform basic_header_request ''application/x-www-form-urlencoded''"
    by code_simp
  have p2: "request_method body_only_request = ''POST''
      \<and> request_is demo_platform body_only_request ''application/x-www-form-urlencoded''"
    by code_simp
  have h2: "\<not> header_truthy (request_get body_only_request ''authorization'')"
    by (simp add: n2 header_truthy_def)
  have r1: "?g1 = (fst ?g1, snd ?g1)" and r2: "?g2 = (fst ?g2, snd ?g2)" by simp_all
  have c1: "calls (snd ?g1) = calls (demo_world []) @ calls (snd ?g1)"
    and c2: "calls (snd ?g2) = calls (demo_world []) @ calls (snd ?g2)"
    by (simp_all add: e)
  note t1 = failed_client_lookup_with_authorization_header [OF r1 c1 f1]
  note t2 = failed_client_lookup_with_authorization_header [OF r2 c2 f2]
  from t1 a1 b0 have h1: "header_truthy (request_get basic_header_request ''authorization'')"
    by simp
  from t1 h1 p1 have x1:
    "fst ?g1 = Inl (OAuth ((InvalidClientException ''Invalid client: client is invalid'')
                           \<lparr>code := 401\<rparr>))"
    "response (snd ?g1) = response_set ''WWW-Authenticate'' www_authenticate_basic demo_response"
    "status (response (snd (TokenHandler_handle demo_platform ?h basic_header_request
        (demo_world [])))) = 401"
    "rheaders (response (snd (TokenHandler_handle demo_platform ?h basic_header_request
        (demo_world [])))) = rheaders (response (snd ?g1))"
    by (simp_all add: e)
  from t2 h2 p2 have x2:
    "fst ?g2 = Inl (OAuth (InvalidClientException ''Invalid client: client is invalid''))"
    "response (snd ?g2) = demo_response"
    "status (response (snd (TokenHandler_handle demo_platform ?h body_only_request
        (demo_world [])))) = 400"
    "rheaders (response (snd (TokenHandler_handle demo_platform ?h body_only_request
        (demo_world [])))) = rheaders (response (snd ?g2))"
    by (simp_all add: e)
  from a1 f1 f2 n2 x1 x2 show ?thesis
    by (simp add: InvalidClientException_def response_get_def response_set_def
        demo_response_def update_conv')
qed

text \<open>
  C5, as stated, fails when the credentials come only from the form body while the
  request has an \<open>Authorization\<close> header of another scheme: the failed lookup is
  answered with status 401 and \<open>WWW-Authenticate\<close>, not with the default 400.
\<close>

theorem body_credentials_beside_a_header_counterexample:
  "auth demo_platform bearer_header_request = None
   \<and> fst (getClientCredentials demo_platform (demo_handler [] (JBool False))
        bearer_header_request (demo_world [])) = Inr (JStr ''c9'', JStr ''s9'')
   \<and> calls (snd (TokenHandler_getClient demo_platform (demo_handler [] (JBool False))
        bearer_header_request (demo_world [])))
       = [(GetClient (JStr ''c9'') (JStr ''s9''), Inr JNull)]
   \<and> fst (TokenHandler_getClient demo_platform (demo_handler [] (JBool False))
        bearer_header_request (demo_world []))
       = Inl (OAuth \<lparr>name = ''invalid_client'',
                     message = ''Invalid client: client is invalid'', code = 401\<rparr>)
   \<and> status (response (snd (TokenHandler_handle demo_platform (demo_handler [] (JBool False))
        bearer_header_request (demo_world [])))) = 401
   \<and> response_get (response (snd (TokenHandler_handle demo_platform
        (demo_handler [] (JBool False)) bearer_header_request (demo_world []))))
        ''WWW-Authenticate'' = Some www_authenticate_basic"
  by code_simp

section \<open>Grant dispatch\<close>

text \<open>
  The tests of \<open>handleGrantType\<close> in their order. The third test is \<open>has\<close> of lodash on
  the registry, and the class is read from the registry only after the fourth.
\<close>

lemma handleGrantType_checks:
  "(\<not> truthy (fld (body request) ''grant_type'') \<longrightarrow>
      handleGrantType pf h request client w
        = (Inl (OAuth (InvalidRequestException ''Missing parameter: `grant_type`'')), w))
   \<and> (truthy (fld (body request) ''grant_type'')
        \<and> \<not> is_nchar pf (fld (body request) ''grant_type'')
        \<and> \<not> is_uri pf (fld (body request) ''grant_type'') \<longrightarrow>
      handleGrantType pf h request client w
        = (Inl (OAuth (InvalidRequestException ''Invalid parameter: `grant_type`'')), w))
   \<and> (truthy (fld (body request) ''grant_type'')
        \<and> (is_nchar pf (fld (body request) ''grant_type'')
            \<or> is_uri pf (fld (body request) ''grant_type''))
        \<and> \<not> has_grantTypes pf (th_grantTypes h) (fld (body request) ''grant_type'') \<longrightarrow>
      handleGrantType pf h request client w
        = (Inl (OAuth (UnsupportedGrantTypeException
             ''Unsupported grant type: `grant_type` is invalid'')), w))
   \<and> (truthy (fld (body request) ''grant_type'')
        \<and> (is_nchar pf (fld (body request) ''grant_type'')
            \<or> is_uri pf (fld (body request) ''grant_type''))
        \<and> has_grantTypes pf (th_grantTypes h) (fld (body request) ''grant_type'')
        \<and> getprop client ''grants'' = JArr gs
        \<and> fld (body request) ''grant_type'' \<notin> set gs \<longrightarrow>
      handleGrantType pf h request client w
        = (Inl (OAuth (UnauthorizedClientException
             ''Unauthorized client: `grant_type` is invalid'')), w))
   \<and> (truthy (fld (body request) ''grant_type'')
        \<and> (is_nchar pf (fld (body request) ''grant_type'')
            \<or> is_uri pf (fld (body request) ''grant_type''))
        \<and> has_grantTypes pf (th_grantTypes h) (fld (body request) ''grant_type'')
        \<and> getprop client ''grants'' = JArr gs
        \<and> fld (body request) ''grant_type'' \<in> set gs
        \<and> map_of (th_grantTypes h) (property_key (fld (body request) ''grant_type'')) = None
        \<longrightarrow>
      handleGrantType pf h request client w
        = (Inl (Foreign ''TypeError: Type is not a constructor''), w))
   \<and> (truthy (fld (body request) ''grant_type'')
        \<and> (is_nchar pf (fld (body request) ''grant_type'')
            \<or> is_uri pf (fld (body request) ''grant_type''))
        \<and> has_grantTypes pf (th_grantTypes h) (fld (body request) ''grant_type'')
        \<and> getprop client ''grants'' = JArr gs
        \<and> fld (body request) ''grant_type'' \<in> set gs
        \<and> map_of (th_grantTypes h) (property_key (fld (body request) ''grant_type''))
            = Some Type \<longrightarrow>
      handleGrantType pf h request client w
        = Type \<lparr>accessTokenLifetime = getAccessTokenLifetime h client,
                 model = th_model h,
                 refreshTokenLifetime = getRefreshTokenLifetime h client,
                 alwaysIssueNewRefreshToken = th_alwaysIssueNewRefreshToken h\<rparr>
            request client w)"
  unfolding handleGrantType_def Let_def
  by (auto simp: throw_def raise_def ret_def fld_def split: option.splits if_splits)

text \<open>
  C6. The claim fails where \<open>has\<close> of lodash differs from the test for a key. The grant
  type \<open>password.prototype\<close> is \<open>NCHAR\<close> and is not a key of the registry, but \<open>has\<close>
  follows it as a path to the own property \<open>prototype\<close> of the class registered as
  \<open>password\<close>, so the registry test passes, which it does not for the grant type \<open>foo\<close>.
  For a client that does not list \<open>password.prototype\<close> the dispatch, and the handler
  with it, fails with \<open>unauthorized_client\<close> and not with \<open>unsupported_grant_type\<close>;
  for a client that lists it, the class read from the registry is \<open>undefined\<close>,
  \<open>new Type(options)\<close> is a \<open>TypeError\<close>, and the handler fails with \<open>server_error\<close>
  and status 503.
\<close>

theorem dotted_grant_type_passes_the_registry_test:
  "fld (body dotted_request) ''grant_type'' = JStr ''password.prototype''
   \<and> is_nchar demo_platform (JStr ''password.prototype'')
   \<and> ''password.prototype'' \<notin> set (map fst (th_grantTypes (demo_handler [] (JBool False))))
   \<and> has_grantTypes demo_platform (th_grantTypes (demo_handler [] (JBool False)))
        (JStr ''password.prototype'')
   \<and> handleGrantType demo_platform (demo_handler [] (JBool False))
        (grant_request [(''grant_type'', ''foo'')]) demo_client (demo_world [])
       = (Inl (OAuth (UnsupportedGrantTypeException
            ''Unsupported grant type: `grant_type` is invalid'')), demo_world [])
   \<and> handleGrantType demo_platform (demo_handler [] (JBool False)) dotted_request demo_client
        (demo_world [])
       = (Inl (OAuth (UnauthorizedClientException
            ''Unauthorized client: `grant_type` is invalid'')), demo_world [])
   \<and> fst (TokenHandler_handle demo_platform (demo_handler [] (JBool False)) dotted_request
        (demo_world []))
       = Inl (OAuth (UnauthorizedClientException
            ''Unauthorized client: `grant_type` is invalid''))
   \<and> handleGrantType demo_platform (demo_handler [] (JBool False)) dotted_request dotted_client
        (demo_world [])
       = (Inl (Foreign ''TypeError: Type is not a constructor''), demo_world [])
   \<and> fst (TokenHandler_handle demo_platform dotted_handler dotted_request (demo_world []))
       = Inl (OAuth (ServerException ''TypeError: Type is not a constructor''))
   \<and> status (response (snd (TokenHandler_handle demo_platform dotted_handler dotted_request
        (demo_world [])))) = 503"
  by code_simp

section \<open>The lifetime in the token response\<close>



section \<open>Which grants require client authentication\<close>

text \<open>
  C8. With \<open>requireClientAuthentication\<close> the empty object, which is what the handler
  is constructed with when the option is absent or \<open>{}\<close>, \<open>isClientAuthenticationRequired\<close>
  returns \<open>true\<close> for every grant type. With a non-empty object, a grant type that has
  no entry still gets \<open>true\<close>, and the result is falsy only through an explicit entry
  for that grant type whose value is falsy (such as \<open>false\<close>).
\<close>

theorem client_authentication_required_by_default:
  "(th_requireClientAuthentication h = [] \<longrightarrow>
      isClientAuthenticationRequired h grantType = JBool True)
   \<and> (TokenHandler_new pf options w = (Inr h, w')
        \<and> (o_requireClientAuthentication options = None
            \<or> o_requireClientAuthentication options = Some [])
       \<longrightarrow> isClientAuthenticationRequired h grantType = JBool True)
   \<and> (th_requireClientAuthentication h \<noteq> []
        \<and> map_of (th_requireClientAuthentication h) (property_key grantType) = None
       \<longrightarrow> isClientAuthenticationRequired h grantType = JBool True)
   \<and> (\<not> truthy (isClientAuthenticationRequired h grantType) \<longrightarrow>
        (\<exists>v. map_of (th_requireClientAuthentication h) (property_key grantType) = Some v
             \<and> v \<noteq> JUndefined \<and> \<not> truthy v
             \<and> isClientAuthenticationRequired h grantType = v))"
  unfolding isClientAuthenticationRequired_def TokenHandler_new_def throw_def ret_def
  by (auto split: option.splits if_splits)

theorem client_authentication_required_by_default_witness:
  "isClientAuthenticationRequired (demo_handler [] (JBool False)) (JStr ''password'') = JBool True
   \<and> fst (TokenHandler_new demo_platform (demo_options (Some [])) (demo_world []))
       = Inr (demo_handler [] (JBool False))
   \<and> isClientAuthenticationRequired
        (demo_handler [(''password'', JBool False)] (JBool False)) (JStr ''refresh_token'')
       = JBool True
   \<and> isClientAuthenticationRequired
        (demo_handler [(''password'', JBool False)] (JBool False)) (JStr ''password'')
       = JBool False"
proof -
  let ?h0 = "demo_handler [] (JBool False)"
  let ?h1 = "demo_handler [(''password'', JBool False)] (JBool False)"
  have c: "TokenHandler_new demo_platform (demo_options (Some [])) (demo_world [])
      = (Inr ?h0, demo_world [])"
    by (simp add: TokenHandler_new_def demo_options_def demo_handler_def demo_model_def
        ret_def throw_def AList.merge_def)
  have n: "\<not> truthy (isClientAuthenticationRequired ?h1 (JStr ''password''))"
    by (simp add: isClientAuthenticationRequired_def demo_handler_def)
  from client_authentication_required_by_default
    [of ?h0 "JStr ''password''" demo_platform "demo_options (Some [])" "demo_world []"
      "demo_world []"]
  have a: "isClientAuthenticationRequired ?h0 (JStr ''password'') = JBool True"
    by (simp add: demo_handler_def)
  from client_authentication_required_by_default
    [of ?h1 "JStr ''refresh_token''" demo_platform "demo_options None" "demo_world []"
      "demo_world []"]
  have b: "isClientAuthenticationRequired ?h1 (JStr ''refresh_token'') = JBool True"
    by (simp add: demo_handler_def)
  from client_authentication_required_by_default
    [of ?h1 "JStr ''password''" demo_platform "demo_options None" "demo_world []"
      "demo_world []"] n
  have d: "isClientAuthenticationRequired ?h1 (JStr ''password'') = JBool False"
    by (auto simp add: demo_handler_def)
  from a b c d show ?thesis by simp
qed

section \<open>A malformed scope in the password and client credentials grants\<close>

text \<open>
  C9. When the \<open>scope\<close> of the request body fails the \<open>NQSCHAR\<close> validator,
  \<open>AbstractGrantType.getScope\<close>, and with it the \<open>password\<close> and \<open>client_credentials\<close>
  grants, which call it first, throw \<open>invalid_argument\<close> with code 500, not
  \<open>invalid_scope\<close> with code 400; nothing else has happened by then.
\<close>

theorem malformed_scope_is_invalid_argument:
  assumes "\<not> is_nqschar pf (fld (body request) ''scope'')"
  shows "getScope pf request w
           = (Inl (OAuth (InvalidArgumentException ''Invalid parameter: `scope`'')), w)
    \<and> (truthy client \<longrightarrow>
         PasswordGrantType_handle pf g request client w
           = (Inl (OAuth (InvalidArgumentException ''Invalid parameter: `scope`'')), w)
         \<and> ClientCredentialsGrantType_handle pf g request client w
           = (Inl (OAuth (InvalidArgumentException ''Invalid parameter: `scope`'')), w))
    \<and> name (InvalidArgumentException ''Invalid parameter: `scope`'') = ''invalid_argument''
    \<and> code (InvalidArgumentException ''Invalid parameter: `scope`'') = 500
    \<and> InvalidArgumentException ''Invalid parameter: `scope`''
         \<noteq> InvalidScopeException ''Invalid parameter: `scope`''"
  using assms
  by (simp add: getScope_def PasswordGrantType_handle_def ClientCredentialsGrantType_handle_def
      bind_def throw_def InvalidArgumentException_def InvalidScopeException_def)

theorem malformed_scope_is_invalid_argument_witness:
  "\<not> is_nqschar demo_platform (fld (body malformed_scope_request) ''scope'')
   \<and> PasswordGrantType_handle demo_platform (demo_grant JUndefined) malformed_scope_request
        demo_client (demo_world [])
       = (Inl (OAuth \<lparr>name = ''invalid_argument'', message = ''Invalid parameter: `scope`'',
                      code = 500\<rparr>), demo_world [])
   \<and> status (response (snd (TokenHandler_handle demo_platform (demo_handler [] (JBool False))
        malformed_scope_request (demo_world [])))) = 500"
proof -
  have a: "\<not> is_nqschar demo_platform (fld (body malformed_scope_request) ''scope'')"
    by code_simp
  have b: "truthy demo_client" by (simp add: demo_client_def)
  have c: "status (response (snd (TokenHandler_handle demo_platform (demo_handler [] (JBool False))
        malformed_scope_request (demo_world [])))) = 500"
    by code_simp
  from malformed_scope_is_invalid_argument [OF a, of "demo_world []" demo_client "demo_grant JUndefined"] a b c
  show ?thesis by (simp add: InvalidArgumentException_def)
qed

section \<open>The authorization code as an extended attribute\<close>

lemma AuthorizationCodeGrantType_saveToken_success:
  assumes "AuthorizationCodeGrantType_saveToken pf g user client ac scope w = (Inr d, w')"
  shows "\<exists>cs t. calls w' = calls w @ cs @ [(SaveToken t client user, Inr d)]
           \<and> own_property t ''authorizationCode'' = Some ac"
proof -
  let ?p = "\<lambda>e :: event. True"
  obtain p1 w1 where s1: "validateScope g user client scope w = (p1, w1)"
    by (cases "validateScope g user client scope w")
  obtain p2 w2 where s2: "generateAccessToken pf g client user scope w1 = (p2, w2)"
    by (cases "generateAccessToken pf g client user scope w1")
  obtain p3 w3 where s3: "generateRefreshToken pf g client user scope w2 = (p3, w3)"
    by (cases "generateRefreshToken pf g client user scope w2")
  obtain p4 w4 where s4: "getAccessTokenExpiresAt pf g w3 = (p4, w4)"
    by (cases "getAccessTokenExpiresAt pf g w3")
  obtain p5 w5 where s5: "getRefreshTokenExpiresAt pf g w4 = (p5, w5)"
    by (cases "getRefreshTokenExpiresAt pf g w4")
  from onlyD [OF only_validateScope s1, of ?p] obtain c1 where c1: "calls w1 = calls w @ c1"
    by auto
  from onlyD [OF only_generateAccessToken s2, of ?p] obtain c2 where c2: "calls w2 = calls w1 @ c2"
    by auto
  from onlyD [OF only_generateRefreshToken s3, of ?p] obtain c3 where c3: "calls w3 = calls w2 @ c3"
    by auto
  from onlyD [OF only_getAccessTokenExpiresAt s4, of ?p] obtain c4 where c4: "calls w4 = calls w3 @ c4"
    by auto
  from onlyD [OF only_getRefreshTokenExpiresAt s5, of ?p] obtain c5 where c5: "calls w5 = calls w4 @ c5"
    by auto
  from assms s1 s2 s3 s4 s5
  have "\<exists>t. own_property t ''authorizationCode'' = Some ac
      \<and> invoke (SaveToken t client user)
              (map_option (\<lambda>f. f t client user) (m_saveToken (model g))) w5 = (Inr d, w')"
    unfolding AuthorizationCodeGrantType_saveToken_def Let_def
    by (cases p1; cases p2; cases p3; cases p4; cases p5)
       (auto simp: bind_def settled_def await_def ret_def raise_def
          intro!: exI [of _ "JObj [(''accessToken'', _), (''authorizationCode'', ac),
               (''accessTokenExpiresAt'', _), (''refreshToken'', _),
               (''refreshTokenExpiresAt'', _), (''scope'', _)]"])
  then obtain t where t: "own_property t ''authorizationCode'' = Some ac"
    and i: "invoke (SaveToken t client user)
              (map_option (\<lambda>f. f t client user) (m_saveToken (model g))) w5 = (Inr d, w')"
    by blast
  from invoke_success [OF i] c1 c2 c3 c4 c5
  have "calls w' = calls w @ (c1 @ c2 @ c3 @ c4 @ c5) @ [(SaveToken t client user, Inr d)]"
    by simp
  with t show ?thesis by blast
qed

lemma getAuthorizationCode_success:
  "AuthorizationCodeGrantType_getAuthorizationCode pf g request client w = (Inr acode, w') \<Longrightarrow>
   calls w' = calls w @ [(GetAuthorizationCode (fld (body request) ''code''), Inr acode)]"
  unfolding AuthorizationCodeGrantType_getAuthorizationCode_def io_defs
  by (auto split: if_splits option.splits prod.splits sum.splits)

lemma revokeAuthorizationCode_success:
  "AuthorizationCodeGrantType_revokeAuthorizationCode g acode w = (Inr x, w') \<Longrightarrow>
   \<exists>st. calls w' = calls w @ [(RevokeAuthorizationCode acode, Inr st)]"
  unfolding AuthorizationCodeGrantType_revokeAuthorizationCode_def io_defs
  by (auto split: if_splits option.splits prod.splits sum.splits)

lemma AuthorizationCodeGrantType_handle_success:
  assumes "AuthorizationCodeGrantType_handle pf g request client w = (Inr d, w')"
  shows "\<exists>acode cs t u.
           calls w' = calls w @ (GetAuthorizationCode (fld (body request) ''code''), Inr acode)
                        # cs @ [(SaveToken t client u, Inr d)]
         \<and> own_property t ''authorizationCode'' = Some (getprop acode ''authorizationCode'')"
proof -
  from assms have b: "bind (AuthorizationCodeGrantType_getAuthorizationCode pf g request client)
        (\<lambda>acode.
        bind (AuthorizationCodeGrantType_validateRedirectUri pf request acode) (\<lambda>_.
        bind (AuthorizationCodeGrantType_revokeAuthorizationCode g acode) (\<lambda>_.
          AuthorizationCodeGrantType_saveToken pf g
            (getprop acode ''user'') client
            (getprop acode ''authorizationCode'') (getprop acode ''scope'')))) w = (Inr d, w')"
    by (simp add: AuthorizationCodeGrantType_handle_def throw_def split: if_splits)
  from b obtain acode w1 where
    s1: "AuthorizationCodeGrantType_getAuthorizationCode pf g request client w = (Inr acode, w1)"
    and b1: "bind (AuthorizationCodeGrantType_validateRedirectUri pf request acode) (\<lambda>_.
        bind (AuthorizationCodeGrantType_revokeAuthorizationCode g acode) (\<lambda>_.
          AuthorizationCodeGrantType_saveToken pf g
            (getprop acode ''user'') client
            (getprop acode ''authorizationCode'') (getprop acode ''scope''))) w1 = (Inr d, w')"
    by (rule bind_success)
  from b1 obtain x2 w2 where
    s2: "AuthorizationCodeGrantType_validateRedirectUri pf request acode w1 = (Inr x2, w2)"
    and b2: "bind (AuthorizationCodeGrantType_revokeAuthorizationCode g acode) (\<lambda>_.
          AuthorizationCodeGrantType_saveToken pf g
            (getprop acode ''user'') client
            (getprop acode ''authorizationCode'') (getprop acode ''scope'')) w2 = (Inr d, w')"
    by (rule bind_success)
  from b2 obtain x3 w3 where
    s3: "AuthorizationCodeGrantType_revokeAuthorizationCode g acode w2 = (Inr x3, w3)"
    and s4: "AuthorizationCodeGrantType_saveToken pf g
            (getprop acode ''user'') client
            (getprop acode ''authorizationCode'') (getprop acode ''scope'') w3 = (Inr d, w')"
    by (rule bind_success)
  from s2 have w2: "w2 = w1"
    unfolding AuthorizationCodeGrantType_validateRedirectUri_def io_defs Let_def
    by (auto split: if_splits)
  from revokeAuthorizationCode_success [OF s3] obtain st where
    c3: "calls w3 = calls w2 @ [(RevokeAuthorizationCode acode, Inr st)]" by blast
  from AuthorizationCodeGrantType_saveToken_success [OF s4] obtain cs t where
    c4: "calls w' = calls w3 @ cs @ [(SaveToken t client (getprop acode ''user''), Inr d)]"
    and t: "own_property t ''authorizationCode'' = Some (getprop acode ''authorizationCode'')"
    by blast
  from getAuthorizationCode_success [OF s1] c3 c4 w2
  have "calls w' = calls w @ (GetAuthorizationCode (fld (body request) ''code''), Inr acode)
      # ((RevokeAuthorizationCode acode, Inr st) # cs)
        @ [(SaveToken t client (getprop acode ''user''), Inr d)]"
    by simp
  with t show ?thesis by blast
qed

lemma grant_new_success:
  "AbstractGrantType_new options w = (Inr g, w') \<Longrightarrow> g = options \<and> w' = w"
  unfolding AbstractGrantType_new_def
  by (auto simp: ret_def throw_def split: if_splits)

lemma AuthorizationCodeGrantType_new_success:
  "AuthorizationCodeGrantType_new options w = (Inr g, w') \<Longrightarrow> g = options \<and> w' = w"
  unfolding AuthorizationCodeGrantType_new_def
  by (erule bind_success) (auto simp: ret_def throw_def split: if_splits dest: grant_new_success)

lemma handleGrantType_authorization_code:
  assumes "handleGrantType pf h request client w = (Inr data, w')"
    and "fld (body request) ''grant_type'' = JStr ''authorization_code''"
    and "map_of (th_grantTypes h) ''authorization_code''
           = map_of (grantTypes pf) ''authorization_code''"
  shows "AuthorizationCodeGrantType_handle pf
           \<lparr>accessTokenLifetime = getAccessTokenLifetime h client,
            model = th_model h,
            refreshTokenLifetime = getRefreshTokenLifetime h client,
            alwaysIssueNewRefreshToken = th_alwaysIssueNewRefreshToken h\<rparr>
           request client w = (Inr data, w')"
proof -
  let ?o = "\<lparr>accessTokenLifetime = getAccessTokenLifetime h client,
            model = th_model h,
            refreshTokenLifetime = getRefreshTokenLifetime h client,
            alwaysIssueNewRefreshToken = th_alwaysIssueNewRefreshToken h\<rparr>"
  from assms have "bind (AuthorizationCodeGrantType_new ?o)
           (\<lambda>g. AuthorizationCodeGrantType_handle pf g request client) w = (Inr data, w')"
    unfolding handleGrantType_def Let_def
    by (auto simp: throw_def raise_def grantTypes_def
        split: if_splits sum.splits bool.splits option.splits)
  then show ?thesis
    by (rule bind_success) (auto dest: AuthorizationCodeGrantType_new_success)
qed

text \<open>
  C10, as amended. \<open>authorizationCode\<close> is not one of \<open>modelAttributes\<close>. \<open>TokenModel\<close>
  wraps the value that the grant returned, which for the \<open>authorization_code\<close> grant is
  the value that \<open>model.saveToken\<close> returned, not the token that was passed to it. So
  in every successful run of \<open>TokenHandler.handle\<close> the response body has the key
  \<open>authorizationCode\<close> exactly when \<open>allowExtendedTokenAttributes\<close> is truthy and the
  returned value has it as an own property, and with that value. In a run of the
  built-in \<open>authorization_code\<close> grant the log ends with the call of \<open>model.saveToken\<close>
  whose outcome is the returned value; the token passed to it has the
  \<open>authorizationCode\<close> of the code that \<open>model.getAuthorizationCode\<close> returned; and if
  the returned value has that property as the passed token has it, as when the model
  returns the token it was given, the body has it as an extended key when extended
  attributes are allowed.
\<close>

theorem returned_authorization_code_is_an_extended_attribute:
  "indexOf modelAttributes ''authorizationCode'' < 0
   \<and> (TokenHandler_handle pf h request w = (Inr data, w') \<longrightarrow>
        own_property (rbody (response w')) ''authorizationCode''
          = (if truthy (th_allowExtendedTokenAttributes h)
             then own_property data ''authorizationCode'' else None))
   \<and> (TokenHandler_handle pf h request w = (Inr data, w')
        \<and> fld (body request) ''grant_type'' = JStr ''authorization_code''
        \<and> map_of (th_grantTypes h) ''authorization_code''
            = map_of (grantTypes pf) ''authorization_code'' \<longrightarrow>
        (\<exists>cs acode t c u.
           calls w' = calls w @ cs @ [(SaveToken t c u, Inr data)]
         \<and> (GetAuthorizationCode (fld (body request) ''code''), Inr acode) \<in> set cs
         \<and> own_property t ''authorizationCode'' = Some (getprop acode ''authorizationCode'')
         \<and> (truthy (th_allowExtendedTokenAttributes h)
              \<and> own_property data ''authorizationCode'' = own_property t ''authorizationCode''
              \<longrightarrow> own_property (rbody (response w')) ''authorizationCode''
                    = Some (getprop acode ''authorizationCode''))))"
proof (intro conjI impI)
  show "indexOf modelAttributes ''authorizationCode'' < 0"
    by (simp add: modelAttributes_def)
next
  assume run: "TokenHandler_handle pf h request w = (Inr data, w')"
  from TokenHandler_handle_success [OF run]
  obtain client w1 w2 tm w3 where
    m: "TokenModel_new pf data (th_allowExtendedTokenAttributes h) w2 = (Inr tm, w3)" and
    b: "rbody (response w') = BearerTokenType_valueOf (getTokenType tm)"
    by (elim exE conjE) (rule that)
  from TokenModel_new_success [OF m] obtain kvs where kvs: "data = JObj kvs"
    and ca: "tm_customAttributes tm
                = (if truthy (th_allowExtendedTokenAttributes h)
                   then Some (filter (\<lambda>(key, v). indexOf modelAttributes key < 0) kvs)
                   else None)"
    by blast
  have k: "indexOf modelAttributes ''authorizationCode'' < 0"
    by (simp add: modelAttributes_def)
  show "own_property (rbody (response w')) ''authorizationCode''
          = (if truthy (th_allowExtendedTokenAttributes h)
             then own_property data ''authorizationCode'' else None)"
    using k by (simp add: b valueOf_extended_key getTokenType_def ca kvs map_of_filter_key)
next
  assume a: "TokenHandler_handle pf h request w = (Inr data, w')
        \<and> fld (body request) ''grant_type'' = JStr ''authorization_code''
        \<and> map_of (th_grantTypes h) ''authorization_code''
            = map_of (grantTypes pf) ''authorization_code''"
  then have run: "TokenHandler_handle pf h request w = (Inr data, w')" by simp
  from TokenHandler_handle_success [OF run]
  obtain client w1 w2 tm w3 where
    g: "TokenHandler_getClient pf h request w = (Inr client, w1)" and
    d: "handleGrantType pf h request client w1 = (Inr data, w2)" and
    m: "TokenModel_new pf data (th_allowExtendedTokenAttributes h) w2 = (Inr tm, w3)" and
    c: "calls w' = calls w3" and
    b: "rbody (response w') = BearerTokenType_valueOf (getTokenType tm)"
    by (elim exE conjE) (rule that)
  from onlyD [OF only_TokenHandler_getClient g, of "\<lambda>e. True"]
  obtain cs0 where c0: "calls w1 = calls w @ cs0" by auto
  from handleGrantType_authorization_code [OF d] a
  obtain go where "AuthorizationCodeGrantType_handle pf go request client w1 = (Inr data, w2)"
    by blast
  from AuthorizationCodeGrantType_handle_success [OF this]
  obtain acode cs t u where
    c2: "calls w2 = calls w1 @ (GetAuthorizationCode (fld (body request) ''code''), Inr acode)
                        # cs @ [(SaveToken t client u, Inr data)]"
    and t: "own_property t ''authorizationCode'' = Some (getprop acode ''authorizationCode'')"
    by blast
  from TokenModel_new_calls [OF m] c c0 c2
  have cw: "calls w' = calls w
      @ (cs0 @ (GetAuthorizationCode (fld (body request) ''code''), Inr acode) # cs)
      @ [(SaveToken t client u, Inr data)]"
    by simp
  from TokenModel_new_success [OF m] obtain kvs where kvs: "data = JObj kvs"
    and ca: "tm_customAttributes tm
                = (if truthy (th_allowExtendedTokenAttributes h)
                   then Some (filter (\<lambda>(key, v). indexOf modelAttributes key < 0) kvs)
                   else None)"
    by blast
  have k: "indexOf modelAttributes ''authorizationCode'' < 0"
    by (simp add: modelAttributes_def)
  have e: "own_property (rbody (response w')) ''authorizationCode''
          = (if truthy (th_allowExtendedTokenAttributes h)
             then own_property data ''authorizationCode'' else None)"
    using k by (simp add: b valueOf_extended_key getTokenType_def ca kvs map_of_filter_key)
  have s: "(GetAuthorizationCode (fld (body request) ''code''), Inr acode)
      \<in> set (cs0 @ (GetAuthorizationCode (fld (body request) ''code''), Inr acode) # cs)"
    by simp
  have l: "truthy (th_allowExtendedTokenAttributes h)
              \<and> own_property data ''authorizationCode'' = own_property t ''authorizationCode''
              \<longrightarrow> own_property (rbody (response w')) ''authorizationCode''
                    = Some (getprop acode ''authorizationCode'')"
    using e t by simp
  from cw s t l
  show "\<exists>cs acode t c u.
           calls w' = calls w @ cs @ [(SaveToken t c u, Inr data)]
         \<and> (GetAuthorizationCode (fld (body request) ''code''), Inr acode) \<in> set cs
         \<and> own_property t ''authorizationCode'' = Some (getprop acode ''authorizationCode'')
         \<and> (truthy (th_allowExtendedTokenAttributes h)
              \<and> own_property data ''authorizationCode'' = own_property t ''authorizationCode''
              \<longrightarrow> own_property (rbody (response w')) ''authorizationCode''
                    = Some (getprop acode ''authorizationCode''))"
    by blast
qed

theorem returned_authorization_code_is_an_extended_attribute_witness:
  "own_property (projr (fst (extended_exchange (JBool True)))) ''authorizationCode''
     = Some (JStr ''abc'')
   \<and> own_property (rbody (response (snd (extended_exchange (JBool True)))))
        ''authorizationCode'' = Some (JStr ''abc'')
   \<and> own_property (rbody (response (snd (extended_exchange (JBool False)))))
        ''authorizationCode'' = None
   \<and> snd (last (calls (snd (extended_exchange (JBool True)))))
       = fst (extended_exchange (JBool True))
   \<and> is_SaveToken (fst (last (calls (snd (extended_exchange (JBool True))))))"
proof -
  let ?w = "demo_world [JStr ''abc'']"
  let ?on = "extended_exchange (JBool True)"
  let ?off = "extended_exchange (JBool False)"
  have r1: "TokenHandler_handle demo_platform (demo_handler [] (JBool True)) code_request ?w
      = (Inr (projr (fst ?on)), snd ?on)"
    by code_simp
  have r2: "TokenHandler_handle demo_platform (demo_handler [] (JBool False)) code_request ?w
      = (Inr (projr (fst ?off)), snd ?off)"
    by code_simp
  have f: "fst ?on = Inr (projr (fst ?on))"
    by code_simp
  have p: "own_property (projr (fst ?on)) ''authorizationCode'' = Some (JStr ''abc'')"
    by code_simp
  have a: "truthy (th_allowExtendedTokenAttributes (demo_handler [] (JBool True)))"
    "\<not> truthy (th_allowExtendedTokenAttributes (demo_handler [] (JBool False)))"
    by (simp_all add: demo_handler_def)
  have gt: "fld (body code_request) ''grant_type'' = JStr ''authorization_code''"
    by (simp add: code_request_def form_request_def fld_def)
  have reg: "map_of (th_grantTypes (demo_handler [] (JBool True))) ''authorization_code''
      = map_of (grantTypes demo_platform) ''authorization_code''"
    by (simp add: demo_handler_def)
  note on = returned_authorization_code_is_an_extended_attribute
    [where pf = demo_platform and h = "demo_handler [] (JBool True)" and request = code_request
       and w = ?w and data = "projr (fst ?on)" and w' = "snd ?on"]
  note off = returned_authorization_code_is_an_extended_attribute
    [where pf = demo_platform and h = "demo_handler [] (JBool False)" and request = code_request
       and w = ?w and data = "projr (fst ?off)" and w' = "snd ?off"]
  from on r1 a(1) p
  have 1: "own_property (rbody (response (snd ?on))) ''authorizationCode'' = Some (JStr ''abc'')"
    by simp
  from off r2 a(2)
  have 2: "own_property (rbody (response (snd ?off))) ''authorizationCode'' = None"
    by simp
  from on r1 gt reg obtain cs t c u where
    "calls (snd ?on) = calls ?w @ cs @ [(SaveToken t c u, Inr (projr (fst ?on)))]"
    by blast
  then have "last (calls (snd ?on)) = (SaveToken t c u, Inr (projr (fst ?on)))"
    by simp
  with f have 3: "snd (last (calls (snd ?on))) = fst ?on"
    and 4: "is_SaveToken (fst (last (calls (snd ?on))))"
    by simp_all
  from p 1 2 3 4 show ?thesis by simp
qed

text \<open>
  C10, as stated, fails when \<open>model.saveToken\<close> returns a record of its own: extended
  attributes are allowed, the token passed to \<open>model.saveToken\<close> has the
  \<open>authorizationCode\<close> \<open>abc\<close>, the handler succeeds, and the response body has no
  such key.
\<close>

theorem saveToken_own_record_counterexample:
  "truthy (th_allowExtendedTokenAttributes (own_record_handler (JBool True)))
   \<and> fst (own_record_exchange (JBool True)) = Inr token_without_expiry
   \<and> length (saved_tokens (calls (snd (own_record_exchange (JBool True))))) = 1
   \<and> own_property (hd (saved_tokens (calls (snd (own_record_exchange (JBool True))))))
        ''authorizationCode'' = Some (JStr ''abc'')
   \<and> own_property (rbody (response (snd (own_record_exchange (JBool True)))))
        ''authorizationCode'' = None"
  by code_simp

section \<open>Rotation of refresh tokens\<close>


lemma saved_tokens_append [simp]:
  "saved_tokens (xs @ ys) = saved_tokens xs @ saved_tokens ys"
  by (induction xs rule: saved_tokens.induct) simp_all




lemma found_refresh_tokens_append [simp]:
  "found_refresh_tokens (xs @ ys) = found_refresh_tokens xs @ found_refresh_tokens ys"
  by (induction xs rule: found_refresh_tokens.induct) simp_all

lemma token_revoked_append [simp]:
  "token_revoked (xs @ ys) = (token_revoked xs \<or> token_revoked ys)"
  by (auto simp: token_revoked_def)

lemma token_revocation_failed_append [simp]:
  "token_revocation_failed (xs @ ys)
     = (token_revocation_failed xs \<or> token_revocation_failed ys)"
  by (auto simp: token_revocation_failed_def)











end
